theory Spec2Isabelle
  imports Complex_Main "HOL-Library.Multiset"
begin

section \<open>Strings and errors\<close>

text \<open>
  JavaScript strings are modelled as \<^typ>\<open>string\<close>. \<open>String.prototype.toLowerCase\<close> is
  modelled on the ASCII letters, \<open>String.prototype.includes\<close> and \<open>startsWith\<close> as
  executable recursive functions. Numbers are modelled as rationals (\<^typ>\<open>rat\<close>): every
  constant of the source (0.5, 0.3, 0.8, 30, 20, 100) is a rational.
\<close>

definition toLowerChar :: "char \<Rightarrow> char" where
  "toLowerChar c =
     (case map_of (zip ''ABCDEFGHIJKLMNOPQRSTUVWXYZ'' ''abcdefghijklmnopqrstuvwxyz'') c of
        None \<Rightarrow> c
      | Some l \<Rightarrow> l)"

definition toLowerCase :: "string \<Rightarrow> string" where
  "toLowerCase s = map toLowerChar s"

fun startsWith :: "string \<Rightarrow> string \<Rightarrow> bool" where
  "startsWith s [] = True"
| "startsWith [] (p # ps) = False"
| "startsWith (c # cs) (p # ps) = (c = p \<and> startsWith cs ps)"

fun strIncludes :: "string \<Rightarrow> string \<Rightarrow> bool" where
  "strIncludes [] p = (p = [])"
| "strIncludes (c # cs) p = (startsWith (c # cs) p \<or> strIncludes cs p)"

text \<open>
  A thrown value is an \<open>Error\<close> object carrying a message, or the \<open>HealableError\<close> wrapper of
  BaseFramework.js, whose constructor copies the message of the error it wraps.
\<close>

datatype js_error = Error string | HealableError js_error

fun message :: "js_error \<Rightarrow> string" where
  "message (Error m) = m"
| "message (HealableError originalError) = message originalError"

section \<open>HealingEngine.classifyError\<close>

datatype error_classification =
    locator_failure
  | wait_failure
  | element_state_failure
  | navigation_failure
  | api_failure
  | assertion_failure
  | network_failure
  | unknown_failure

definition classifyError :: "js_error \<Rightarrow> error_classification" where
  "classifyError error =
     (let errorMessage = toLowerCase (message error) in
      if strIncludes errorMessage ''element not found'' \<or> strIncludes errorMessage ''selector''
        then locator_failure
      else if strIncludes errorMessage ''timeout'' \<or> strIncludes errorMessage ''wait''
        then wait_failure
      else if strIncludes errorMessage ''not visible'' \<or> strIncludes errorMessage ''not clickable''
        then element_state_failure
      else if strIncludes errorMessage ''navigation'' \<or> strIncludes errorMessage ''page not found''
        then navigation_failure
      else if strIncludes errorMessage ''api'' \<or> strIncludes errorMessage ''endpoint''
        then api_failure
      else if strIncludes errorMessage ''assertion'' \<or> strIncludes errorMessage ''expect''
        then assertion_failure
      else if strIncludes errorMessage ''network'' \<or> strIncludes errorMessage ''connection''
        then network_failure
      else unknown_failure)"

text \<open>The string the source returns for each classification.\<close>

fun classificationName :: "error_classification \<Rightarrow> string" where
  "classificationName locator_failure = ''locator_failure''"
| "classificationName wait_failure = ''wait_failure''"
| "classificationName element_state_failure = ''element_state_failure''"
| "classificationName navigation_failure = ''navigation_failure''"
| "classificationName api_failure = ''api_failure''"
| "classificationName assertion_failure = ''assertion_failure''"
| "classificationName network_failure = ''network_failure''"
| "classificationName unknown_failure = ''unknown_failure''"

text \<open>
  The specification's reading of the classifier: a priority table, scanned from the top,
  first row with a matching substring wins, \<open>unknown_failure\<close> when no row matches.
\<close>

definition priorityTable :: "(error_classification \<times> string list) list" where
  "priorityTable =
     [(locator_failure, [''element not found'', ''selector'']),
      (wait_failure, [''timeout'', ''wait'']),
      (element_state_failure, [''not visible'', ''not clickable'']),
      (navigation_failure, [''navigation'', ''page not found'']),
      (api_failure, [''api'', ''endpoint'']),
      (assertion_failure, [''assertion'', ''expect'']),
      (network_failure, [''network'', ''connection''])]"

fun firstMatch :: "(error_classification \<times> string list) list \<Rightarrow> string \<Rightarrow> error_classification" where
  "firstMatch [] m = unknown_failure"
| "firstMatch ((k, pats) # rows) m =
     (if list_ex (strIncludes m) pats then k else firstMatch rows m)"

section \<open>Data model\<close>

text \<open>
  Test data carries an optional element descriptor and an optional live page handle
  (\<open>const { element, page } = testData || {}\<close>); the handle itself is opaque. A context
  is read by the modelled code only through \<open>testType\<close> and \<open>pageUrl\<close>; an absent
  property (\<open>undefined\<close>) is \<open>None\<close>.
\<close>

datatype page = Page nat

record element =
  locator :: "string option"
  selector :: "string option"

record testData =
  td_element :: "element option"
  td_page :: "page option"
  td_url :: "string option"

record "context" =
  testType :: "string option"
  pageUrl :: "string option"

record wait_options =
  wo_timeout :: nat
  wo_retries :: nat
  wo_delay :: nat

text \<open>
  The result objects of the strategy executors and of \<open>applyHealing\<close>. Every property
  but \<open>success\<close> is optional; \<open>emptyResult\<close> is the object with none of them.
\<close>

record result =
  success :: bool
  healedData :: "testData option"
  r_strategy :: "string option"
  changes :: "string list option"
  r_error :: "string option"
  r_locator :: "string option"
  r_confidence :: "rat option"
  r_options :: "wait_options option"
  r_strategies :: "string list option"
  r_context :: "context option"

definition emptyResult :: result where
  "emptyResult =
     \<lparr>success = False, healedData = None, r_strategy = None, changes = None, r_error = None,
      r_locator = None, r_confidence = None, r_options = None, r_strategies = None,
      r_context = None\<rparr>"

text \<open>
  A call that may throw returns \<open>Inl\<close> of the thrown error. A call that returns
  \<open>undefined\<close> or \<open>null\<close> instead of an object returns \<open>Inr None\<close>.
  A strategy's \<open>implementation\<close> is a function, a string of code, or anything else.
\<close>

datatype impl =
    ImplFunction "testData \<Rightarrow> js_error + result option"
  | ImplString string
  | ImplOther

record candidate =
  strategy :: string
  description :: "string option"
  implementation :: impl
  confidence :: "rat option"
  source :: "string option"
  score :: "rat option"

record pattern =
  p_name :: string
  p_description :: "string option"
  p_implementation :: impl
  successCount :: nat
  totalCount :: nat
  successRate :: rat

record healing_record =
  h_timestamp :: nat
  h_strategy :: string
  h_success :: bool
  h_result :: result
  h_context :: "context option"

text \<open>
  A JavaScript \<open>Map\<close> keeps its entries in insertion order with unique keys: it is an
  association list, \<open>get\<close> is \<^const>\<open>map_of\<close>, and \<open>set\<close> overwrites the entry of a key
  in place or appends a new entry.
\<close>

fun mapSet :: "('k \<times> 'v) list \<Rightarrow> 'k \<Rightarrow> 'v \<Rightarrow> ('k \<times> 'v) list" where
  "mapSet [] k v = [(k, v)]"
| "mapSet ((k', v') # m) k v = (if k' = k then (k, v) # m else (k', v') # mapSet m k v)"

definition mapGet :: "('k \<times> 'v) list \<Rightarrow> 'k \<Rightarrow> 'v option" where
  "mapGet m k = map_of m k"

definition mapHas :: "('k \<times> 'v) list \<Rightarrow> 'k \<Rightarrow> bool" where
  "mapHas m k = (map_of m k \<noteq> None)"

text \<open>\<open>new Map(entries)\<close> sets the entries one after the other.\<close>

definition newMap :: "('k \<times> 'v) list \<Rightarrow> ('k \<times> 'v) list" where
  "newMap entries = foldl (\<lambda>m (k, v). mapSet m k v) [] entries"

text \<open>The learning state of one \<open>HealingEngine\<close>.\<close>

record engine =
  healingHistory :: "healing_record list"
  patterns :: "(string \<times> pattern) list"
  successRates :: "(string \<times> rat) list"

text \<open>\<open>x || d\<close> on an optional number: \<open>undefined\<close> and \<open>0\<close> are falsy.\<close>

definition orDefault :: "rat option \<Rightarrow> rat \<Rightarrow> rat" where
  "orDefault x d = (case x of None \<Rightarrow> d | Some v \<Rightarrow> if v = 0 then d else v)"

section \<open>HealingEngine: learning\<close>

definition updatePatterns :: "candidate \<Rightarrow> bool \<Rightarrow> engine \<Rightarrow> engine" where
  "updatePatterns s succeeded e =
     (let patternKey = strategy s;
          ps = (if \<not> mapHas (patterns e) patternKey
                then mapSet (patterns e) patternKey
                       \<lparr>p_name = strategy s, p_description = description s,
                        p_implementation = implementation s,
                        successCount = 0, totalCount = 0, successRate = 1/2\<rparr>
                else patterns e)
      in case mapGet ps patternKey of
           None \<Rightarrow> e\<lparr>patterns := ps\<rparr>
         | Some p \<Rightarrow>
             (let tc = totalCount p + 1;
                  sc = (if succeeded then successCount p + 1 else successCount p)
              in e\<lparr>patterns := mapSet ps patternKey
                     (p\<lparr>totalCount := tc, successCount := sc,
                        successRate := of_nat sc / of_nat tc\<rparr>)\<rparr>))"

definition recordSuccessfulHealing :: "nat \<Rightarrow> candidate \<Rightarrow> result \<Rightarrow> engine \<Rightarrow> engine" where
  "recordSuccessfulHealing now s r e =
     (let healingRecord =
            \<lparr>h_timestamp = now, h_strategy = strategy s, h_success = True, h_result = r,
             h_context = Some (case r_context r of
                                 None \<Rightarrow> \<lparr>testType = None, pageUrl = None\<rparr>
                               | Some c \<Rightarrow> c)\<rparr>;
          e1 = e\<lparr>healingHistory := healingHistory e @ [healingRecord]\<rparr>;
          currentRate = orDefault (mapGet (successRates e1) (strategy s)) (1/2);
          newRate = (currentRate + 1) / 2;
          e2 = e1\<lparr>successRates := mapSet (successRates e1) (strategy s) newRate\<rparr>
      in updatePatterns s True e2)"

section \<open>HealingEngine: ranking\<close>

definition calculateContextSimilarity :: "engine \<Rightarrow> context \<Rightarrow> rat" where
  "calculateContextSimilarity e ctx =
     (let similarContexts =
            filter (\<lambda>entry. Option.bind (h_context entry) testType = testType ctx \<and>
                            Option.bind (h_context entry) pageUrl = pageUrl ctx)
                   (healingHistory e)
      in if length similarContexts > 0 then 8/10 else 3/10)"

definition calculateStrategyScore :: "engine \<Rightarrow> candidate \<Rightarrow> context \<Rightarrow> rat" where
  "calculateStrategyScore e s ctx =
     (let score0 = orDefault (confidence s) 50;
          historicalRate = orDefault (mapGet (successRates e) (strategy s)) (1/2);
          score1 = score0 + historicalRate * 30;
          contextSimilarity = calculateContextSimilarity e ctx;
          score2 = score1 + contextSimilarity * 20
      in min 100 score2)"

text \<open>
  \<open>rankStrategies\<close> first maps every strategy to a copy with its \<open>score\<close> set, then sorts
  with the comparator \<open>b.score - a.score\<close>. \<open>Array.prototype.sort\<close> is a stable sort, so
  this is \<^const>\<open>sort_key\<close> on the negated score. Every element that is sorted has a score;
  \<open>scoreValue\<close> reads it.
\<close>

definition withScore :: "engine \<Rightarrow> context \<Rightarrow> candidate \<Rightarrow> candidate" where
  "withScore e ctx s = s\<lparr>score := Some (calculateStrategyScore e s ctx)\<rparr>"

definition scoreValue :: "candidate \<Rightarrow> rat" where
  "scoreValue s = (case score s of None \<Rightarrow> 0 | Some x \<Rightarrow> x)"

definition rankStrategies :: "engine \<Rightarrow> candidate list \<Rightarrow> context \<Rightarrow> candidate list" where
  "rankStrategies e strategies ctx =
     sort_key (\<lambda>s. - scoreValue s) (map (withScore e ctx) strategies)"

text \<open>
  The ranking formula in the specification's words: the historical success rate of a
  strategy name is its entry of the success-rate table, 0.5 when the name is absent; the
  context similarity is 0.8 when some history entry has the same test type and page URL,
  0.3 otherwise; the score is confidence + rate * 30 + similarity * 20, clamped to [0, 100].
\<close>

definition spec_historicalSuccessRate :: "engine \<Rightarrow> string \<Rightarrow> rat" where
  "spec_historicalSuccessRate e n = (case mapGet (successRates e) n of None \<Rightarrow> 1/2 | Some h \<Rightarrow> h)"

definition spec_contextSimilarity :: "engine \<Rightarrow> context \<Rightarrow> rat" where
  "spec_contextSimilarity e ctx =
     (if \<exists>entry \<in> set (healingHistory e).
           Option.bind (h_context entry) testType = testType ctx \<and>
           Option.bind (h_context entry) pageUrl = pageUrl ctx
      then 8/10 else 3/10)"

definition spec_score :: "engine \<Rightarrow> rat \<Rightarrow> string \<Rightarrow> context \<Rightarrow> rat" where
  "spec_score e c n ctx =
     max 0 (min 100 (c + spec_historicalSuccessRate e n * 30 + spec_contextSimilarity e ctx * 20))"

section \<open>HealingEngine: persistence\<close>

text \<open>
  The record written by \<open>saveHealingPatterns\<close> and read by \<open>loadHealingPatterns\<close>; a
  property missing from a stored record is \<open>None\<close>. The file \<open>data/patterns.json\<close> is
  absent, unreadable as JSON, or holds the JSON text of one record; a file that holds JSON is
  modelled by the record that \<open>fs.readJson\<close> yields for it.
\<close>

record persisted =
  ps_patterns :: "(string \<times> pattern) list option"
  ps_successRates :: "(string \<times> rat) list option"
  ps_healingHistory :: "healing_record list option"
  lastUpdated :: nat

datatype patterns_file = NoFile | CorruptFile | JsonFile persisted

text \<open>\<open>xs.slice(-n)\<close>: the last \<open>n\<close> elements, all of them when there are fewer.\<close>

definition sliceLast :: "nat \<Rightarrow> 'a list \<Rightarrow> 'a list" where
  "sliceLast n xs = drop (length xs - n) xs"

text \<open>
  What \<open>JSON.stringify\<close> makes of the values of the record. Strings, numbers, booleans,
  arrays and plain objects are kept, and an \<open>undefined\<close> property stays absent. A
  function-valued property is left out, so a function \<open>implementation\<close> is read back as
  absent. A live page handle is an object graph with cycles: encoding it throws a
  \<open>TypeError\<close>. Only the healed data of a history entry can hold a page handle.
\<close>

definition jsonImpl :: "impl \<Rightarrow> impl" where
  "jsonImpl i = (case i of ImplFunction f \<Rightarrow> ImplOther | ImplString c \<Rightarrow> ImplString c | ImplOther \<Rightarrow> ImplOther)"

definition jsonPattern :: "pattern \<Rightarrow> pattern" where
  "jsonPattern p = p\<lparr>p_implementation := jsonImpl (p_implementation p)\<rparr>"

definition jsonEntries :: "(string \<times> pattern) list \<Rightarrow> (string \<times> pattern) list" where
  "jsonEntries entries = map (\<lambda>(k, p). (k, jsonPattern p)) entries"

definition hasLivePage :: "healing_record \<Rightarrow> bool" where
  "hasLivePage h =
     (case healedData (h_result h) of None \<Rightarrow> False | Some td \<Rightarrow> td_page td \<noteq> None)"

text \<open>
  \<open>fs.writeJson(path, data)\<close>: it throws when the data cannot be encoded, and otherwise
  leaves a file whose content reads back as the encoded record.
\<close>

definition writeJson :: "persisted \<Rightarrow> js_error + patterns_file" where
  "writeJson data =
     (if list_ex hasLivePage (case ps_healingHistory data of None \<Rightarrow> [] | Some h \<Rightarrow> h)
      then Inl (Error ''Converting circular structure to JSON'')
      else Inr (JsonFile (data\<lparr>ps_patterns := map_option jsonEntries (ps_patterns data)\<rparr>)))"

text \<open>
  \<open>saveHealingPatterns\<close> builds the record and writes it; its \<open>catch\<close> logs a failure and
  leaves the file as it was. It returns the file after the call.
\<close>

definition saveHealingPatterns :: "nat \<Rightarrow> engine \<Rightarrow> patterns_file \<Rightarrow> patterns_file" where
  "saveHealingPatterns now e previous =
     (let data =
            \<lparr>ps_patterns = Some (patterns e),
             ps_successRates = Some (successRates e),
             ps_healingHistory = Some (sliceLast 1000 (healingHistory e)),
             lastUpdated = now\<rparr>
      in case writeJson data of
           Inl error \<Rightarrow> previous
         | Inr written \<Rightarrow> written)"

text \<open>
  \<open>loadHealingPatterns\<close>: nothing is loaded when the file does not exist
  (\<open>fs.pathExists\<close>) or when \<open>fs.readJson\<close> throws (the \<open>catch\<close> logs a warning).
\<close>

definition loadHealingPatterns :: "patterns_file \<Rightarrow> engine \<Rightarrow> engine" where
  "loadHealingPatterns stored e =
     (case stored of
        NoFile \<Rightarrow> e
      | CorruptFile \<Rightarrow> e
      | JsonFile data \<Rightarrow>
          (let e1 = (case ps_patterns data of
                       None \<Rightarrow> e | Some entries \<Rightarrow> e\<lparr>patterns := newMap entries\<rparr>);
               e2 = (case ps_successRates data of
                       None \<Rightarrow> e1 | Some entries \<Rightarrow> e1\<lparr>successRates := newMap entries\<rparr>);
               e3 = (case ps_healingHistory data of
                       None \<Rightarrow> e2 | Some h \<Rightarrow> e2\<lparr>healingHistory := h\<rparr>)
           in e3))"


text \<open>
  The invariant of the stores an engine works on: both maps have unique keys, and every
  stored success rate is positive (the only writer stores \<open>(rate + 1) / 2\<close>).
\<close>

definition storeInvariant :: "engine \<Rightarrow> bool" where
  "storeInvariant e =
     (distinct (map fst (patterns e)) \<and> distinct (map fst (successRates e)) \<and>
      list_all (\<lambda>(k, r). 0 < r) (successRates e))"

section \<open>HealingEngine: executing strategies\<close>

text \<open>
  The strategy executors are collaborators of the engine (\<open>this.uiHealing\<close>,
  \<open>this.apiHealing\<close>, \<open>this.aiIntegration.healTestData\<close>, and \<open>eval\<close> of a string
  implementation). Each is a function of its arguments that throws, returns an object, or
  returns \<open>undefined\<close>. The \<open>testFunction\<close> argument of the source is passed along but
  never called, and is left out.
\<close>

type_synonym handler = "candidate \<Rightarrow> testData \<Rightarrow> context \<Rightarrow> js_error + result option"

record executors =
  ui_healLocatorIssue :: handler
  ui_healWaitIssue :: handler
  ui_healElementStateIssue :: handler
  ui_healNavigationIssue :: handler
  api_healEndpointIssue :: handler
  api_healSchemaIssue :: handler
  api_healResponseIssue :: handler
  ai_healTestData :: "testData \<Rightarrow> candidate \<Rightarrow> js_error + testData"
  evalImplementation :: "string \<Rightarrow> testData \<Rightarrow> js_error + result option"

text \<open>The object \<open>{success: false, error: error.message, strategy: strategy.strategy}\<close>.\<close>

definition failureResult :: "js_error \<Rightarrow> candidate \<Rightarrow> result" where
  "failureResult error s =
     emptyResult\<lparr>success := False, r_error := Some (message error),
                 r_strategy := Some (strategy s)\<rparr>"

definition executeCustomStrategy :: "executors \<Rightarrow> candidate \<Rightarrow> testData \<Rightarrow> result option" where
  "executeCustomStrategy ex s td =
     (case implementation s of
        ImplFunction f \<Rightarrow>
          (case f td of Inl error \<Rightarrow> Some (failureResult error s) | Inr r \<Rightarrow> r)
      | ImplString code \<Rightarrow>
          (case evalImplementation ex code td of
             Inl error \<Rightarrow> Some (failureResult error s)
           | Inr r \<Rightarrow> r)
      | ImplOther \<Rightarrow>
          Some (emptyResult\<lparr>success := False,
                            r_error := Some ''Invalid strategy implementation'',
                            r_strategy := Some (strategy s)\<rparr>))"

text \<open>A candidate has no \<open>changes\<close> property, so \<open>strategy.changes || []\<close> is the empty list.\<close>

definition healDataIssue :: "executors \<Rightarrow> candidate \<Rightarrow> testData \<Rightarrow> context \<Rightarrow> result" where
  "healDataIssue ex s td ctx =
     (case ai_healTestData ex td s of
        Inl error \<Rightarrow> failureResult error s
      | Inr healed \<Rightarrow>
          emptyResult\<lparr>success := True, healedData := Some healed,
                      r_strategy := Some (strategy s), changes := Some []\<rparr>)"

text \<open>The \<open>switch\<close> of \<open>executeHealingStrategy\<close>, and the \<open>try\<close>/\<open>catch\<close> around it.\<close>

definition dispatchStrategy :: "executors \<Rightarrow> candidate \<Rightarrow> testData \<Rightarrow> context \<Rightarrow> js_error + result option" where
  "dispatchStrategy ex s td ctx =
     (let strategyType = toLowerCase (strategy s) in
      if strategyType = ''locator_healing'' then ui_healLocatorIssue ex s td ctx
      else if strategyType = ''wait_healing'' then ui_healWaitIssue ex s td ctx
      else if strategyType = ''element_state_healing'' then ui_healElementStateIssue ex s td ctx
      else if strategyType = ''navigation_healing'' then ui_healNavigationIssue ex s td ctx
      else if strategyType = ''api_endpoint_healing'' then api_healEndpointIssue ex s td ctx
      else if strategyType = ''api_schema_healing'' then api_healSchemaIssue ex s td ctx
      else if strategyType = ''api_response_healing'' then api_healResponseIssue ex s td ctx
      else if strategyType = ''data_healing'' then Inr (Some (healDataIssue ex s td ctx))
      else Inr (executeCustomStrategy ex s td))"

definition executeHealingStrategy :: "executors \<Rightarrow> candidate \<Rightarrow> testData \<Rightarrow> context \<Rightarrow> result option" where
  "executeHealingStrategy ex s td ctx =
     (case dispatchStrategy ex s td ctx of
        Inl error \<Rightarrow> Some (failureResult error s)
      | Inr r \<Rightarrow> r)"

section \<open>HealingEngine.applyHealing\<close>

record analysis =
  errorType :: error_classification
  a_context :: "context"
  a_strategies :: "candidate list"
  a_timestamp :: nat

text \<open>
  The \<open>for\<close> loop of \<open>applyHealing\<close>. It returns the result of the first successful
  strategy (\<open>None\<close> when the loop runs to its end), the engine state, and the strategies on
  which \<open>executeHealingStrategy\<close> was invoked, in order. Reading \<open>result.success\<close> of an
  \<open>undefined\<close> result throws inside the \<open>try\<close>; the \<open>catch\<close> logs and the loop goes on.
\<close>

fun applyHealingLoop ::
  "executors \<Rightarrow> nat \<Rightarrow> testData \<Rightarrow> context \<Rightarrow> candidate list \<Rightarrow> engine
   \<Rightarrow> result option \<times> engine \<times> candidate list" where
  "applyHealingLoop ex now td ctx [] e = (None, e, [])"
| "applyHealingLoop ex now td ctx (s # rest) e =
     (case executeHealingStrategy ex s td ctx of
        None \<Rightarrow>
          (case applyHealingLoop ex now td ctx rest e of
             (res, e', invoked) \<Rightarrow> (res, e', s # invoked))
      | Some r \<Rightarrow>
          if success r then (Some r, recordSuccessfulHealing now s r e, [s])
          else (case applyHealingLoop ex now td ctx rest e of
                  (res, e', invoked) \<Rightarrow> (res, e', s # invoked)))"

definition allFailedResult :: "candidate list \<Rightarrow> result" where
  "allFailedResult strategies =
     emptyResult\<lparr>success := False, r_error := Some ''All healing strategies failed'',
                 r_strategies := Some (map strategy strategies)\<rparr>"

definition applyHealing ::
  "executors \<Rightarrow> nat \<Rightarrow> analysis \<Rightarrow> testData \<Rightarrow> context \<Rightarrow> engine
   \<Rightarrow> result \<times> engine \<times> candidate list" where
  "applyHealing ex now a td ctx e =
     (case applyHealingLoop ex now td ctx (a_strategies a) e of
        (Some r, e', invoked) \<Rightarrow> (r, e', invoked)
      | (None, e', invoked) \<Rightarrow> (allFailedResult (a_strategies a), e', invoked))"

text \<open>A strategy succeeds when its execution returns an object whose \<open>success\<close> is true.\<close>

definition succeeds :: "executors \<Rightarrow> testData \<Rightarrow> context \<Rightarrow> candidate \<Rightarrow> bool" where
  "succeeds ex td ctx s =
     (case executeHealingStrategy ex s td ctx of None \<Rightarrow> False | Some r \<Rightarrow> success r)"

section \<open>UIFealingStrategies\<close>

text \<open>
  The UI strategy executor. With a live page handle each method runs browser techniques,
  which belong to the test runtime: they are the \<open>livePage\<close> functions of the record
  below. Without a page handle each method takes its basic fallback, modelled in full.
  \<open>generateLocators\<close> is the call \<open>this.aiIntegration.generateLocators(...)\<close> of
  \<open>tryBasicLocatorStrategies\<close>: it throws, or returns a list of locators or \<open>undefined\<close>.
\<close>

record ai_locator =
  al_selector :: "string option"
  al_confidence :: "rat option"

record ui_strategies =
  enableAILocatorGeneration :: bool
  generateLocators :: "string \<Rightarrow> string \<Rightarrow> string option \<Rightarrow> js_error + ai_locator list option"
  livePageLocator :: "candidate \<Rightarrow> testData \<Rightarrow> page \<Rightarrow> context \<Rightarrow> result"
  livePageWait :: "candidate \<Rightarrow> testData \<Rightarrow> page \<Rightarrow> context \<Rightarrow> result"
  livePageElementState :: "candidate \<Rightarrow> testData \<Rightarrow> page \<Rightarrow> context \<Rightarrow> result"
  livePageNavigation :: "candidate \<Rightarrow> testData \<Rightarrow> page \<Rightarrow> context \<Rightarrow> result"

definition dquote :: string where
  "dquote = [CHR 0x22]"

text \<open>\<open>s.replace('=', '*=')\<close> replaces the first \<open>=\<close> only.\<close>

fun replaceFirstEq :: "string \<Rightarrow> string" where
  "replaceFirstEq [] = []"
| "replaceFirstEq (c # cs) = (if c = CHR ''='' then ''*='' @ cs else c # replaceFirstEq cs)"

text \<open>\<open>element?.locator || element?.selector\<close>: the empty string is falsy.\<close>

definition originalLocatorOf :: "element option \<Rightarrow> string option" where
  "originalLocatorOf el =
     (case el of
        None \<Rightarrow> None
      | Some x \<Rightarrow>
          (case locator x of
             None \<Rightarrow> selector x
           | Some l \<Rightarrow> if l = [] then selector x else Some l))"

definition generateAlternativeSelectors :: "string option \<Rightarrow> string list" where
  "generateAlternativeSelectors originalLocator =
     (case originalLocator of
        None \<Rightarrow> []
      | Some l \<Rightarrow>
          if l = [] then []
          else if startsWith l ''#'' then
            [''[id='' @ dquote @ drop 1 l @ dquote @ '']'',
             ''[data-testid='' @ dquote @ drop 1 l @ dquote @ '']'',
             ''.'' @ drop 1 l]
          else if startsWith l ''.'' then
            [''[class*='' @ dquote @ drop 1 l @ dquote @ '']'',
             ''[data-class='' @ dquote @ drop 1 l @ dquote @ '']'']
          else if startsWith l ''['' then [replaceFirstEq l]
          else [])"

definition tryBasicLocatorStrategies :: "ui_strategies \<Rightarrow> string option \<Rightarrow> context \<Rightarrow> result" where
  "tryBasicLocatorStrategies ui originalLocator ctx =
     (let alternatives = generateAlternativeSelectors originalLocator;
          fromAlternatives =
            (case alternatives of
               a # _ \<Rightarrow>
                 emptyResult\<lparr>success := True, r_locator := Some a,
                             r_strategy := Some ''alternative_selector'',
                             r_confidence := Some 60\<rparr>
             | [] \<Rightarrow>
                 emptyResult\<lparr>success := False,
                             r_error := Some ''No alternative locators found'',
                             r_strategy := Some ''locator_healing''\<rparr>)
      in if enableAILocatorGeneration ui then
           (case generateLocators ui
                   (''Element with selector: '' @
                      (case originalLocator of None \<Rightarrow> ''undefined'' | Some l \<Rightarrow> l))
                   '''' originalLocator of
              Inr (Some (aiLocator # _)) \<Rightarrow>
                emptyResult\<lparr>success := True, r_locator := al_selector aiLocator,
                            r_strategy := Some ''ai_generated'',
                            r_confidence := Some (orDefault (al_confidence aiLocator) 70)\<rparr>
            | _ \<Rightarrow> fromAlternatives)
         else fromAlternatives)"

definition healLocatorIssue :: "ui_strategies \<Rightarrow> candidate \<Rightarrow> testData \<Rightarrow> context \<Rightarrow> result" where
  "healLocatorIssue ui s td ctx =
     (case td_page td of
        None \<Rightarrow> tryBasicLocatorStrategies ui (originalLocatorOf (td_element td)) ctx
      | Some p \<Rightarrow> livePageLocator ui s td p ctx)"

definition tryBasicWaitStrategies :: "element option \<Rightarrow> context \<Rightarrow> result" where
  "tryBasicWaitStrategies el ctx =
     emptyResult\<lparr>success := True, r_strategy := Some ''basic_wait'',
                 r_options := Some \<lparr>wo_timeout = 5000, wo_retries = 3, wo_delay = 1000\<rparr>,
                 changes := Some [''Applied basic wait strategy with 5s timeout'']\<rparr>"

definition healWaitIssue :: "ui_strategies \<Rightarrow> candidate \<Rightarrow> testData \<Rightarrow> context \<Rightarrow> result" where
  "healWaitIssue ui s td ctx =
     (case td_page td of
        None \<Rightarrow> tryBasicWaitStrategies (td_element td) ctx
      | Some p \<Rightarrow> livePageWait ui s td p ctx)"

definition healElementStateIssue :: "ui_strategies \<Rightarrow> candidate \<Rightarrow> testData \<Rightarrow> context \<Rightarrow> result" where
  "healElementStateIssue ui s td ctx =
     (case td_page td of
        None \<Rightarrow>
          emptyResult\<lparr>success := True, r_strategy := Some ''element_state_healing'',
                      changes := Some [''Applied basic element state healing'']\<rparr>
      | Some p \<Rightarrow> livePageElementState ui s td p ctx)"

definition healNavigationIssue :: "ui_strategies \<Rightarrow> candidate \<Rightarrow> testData \<Rightarrow> context \<Rightarrow> result" where
  "healNavigationIssue ui s td ctx =
     (case td_page td of
        None \<Rightarrow>
          emptyResult\<lparr>success := True, r_strategy := Some ''navigation_healing'',
                      changes := Some [''Applied basic navigation healing'']\<rparr>
      | Some p \<Rightarrow> livePageNavigation ui s td p ctx)"

text \<open>
  The \<open>AIIntegration\<close> class of the repository defines \<open>generateAlternativeLocators\<close> but no
  \<open>generateLocators\<close>, so with the shipped collaborator the call throws a \<open>TypeError\<close>.
\<close>

definition shippedGenerateLocators ::
  "string \<Rightarrow> string \<Rightarrow> string option \<Rightarrow> js_error + ai_locator list option" where
  "shippedGenerateLocators d src l =
     Inl (Error ''this.aiIntegration.generateLocators is not a function'')"

section \<open>AIIntegration: generating strategies\<close>

text \<open>
  The language-model backend and \<open>JSON.parse\<close> are collaborators: \<open>callAI\<close> throws or
  returns a text, and parsing a text throws a \<open>SyntaxError\<close>, yields a value that is not
  an array, or yields an array (of strategy objects). The regular expressions of
  \<open>parseHealingStrategies\<close> all have the shape \<open>/first.*second/i\<close>; \<open>.\<close> matches every
  character but a line terminator.
\<close>

datatype json_parse = JsonSyntaxError | JsonNotArray | JsonArray "candidate list"

definition isLineTerminator :: "char \<Rightarrow> bool" where
  "isLineTerminator c = (c = CHR 0x0A \<or> c = CHR 0x0D)"

fun matchRest :: "string \<Rightarrow> string \<Rightarrow> bool" where
  "matchRest second [] = (second = [])"
| "matchRest second (c # cs) =
     (startsWith (c # cs) second \<or> (\<not> isLineTerminator c \<and> matchRest second cs))"

fun regexSearch :: "string \<Rightarrow> string \<Rightarrow> string \<Rightarrow> bool" where
  "regexSearch first second [] = (first = [] \<and> second = [])"
| "regexSearch first second (c # cs) =
     ((startsWith (c # cs) first \<and> matchRest second (drop (length first) (c # cs)))
      \<or> regexSearch first second cs)"

definition regexTest :: "string \<times> string \<Rightarrow> string \<Rightarrow> bool" where
  "regexTest rx s = regexSearch (fst rx) (snd rx) (toLowerCase s)"

definition strategyPatterns :: "(string \<times> string) list" where
  "strategyPatterns =
     [(''locator'', ''healing''), (''wait'', ''strategy''), (''element'', ''state''),
      (''navigation'', ''healing''), (''data'', ''adjustment'')]"

definition extractStrategyName :: "string \<Rightarrow> string \<times> string \<Rightarrow> string" where
  "extractStrategyName response rx =
     (if regexTest rx ''locator'' then ''locator_healing''
      else if regexTest rx ''wait'' then ''wait_healing''
      else if regexTest rx ''element'' then ''element_state_healing''
      else if regexTest rx ''navigation'' then ''navigation_healing''
      else if regexTest rx ''data'' then ''data_healing''
      else ''generic_healing'')"

fun splitLines :: "string \<Rightarrow> string list" where
  "splitLines [] = [[]]"
| "splitLines (c # cs) =
     (if c = CHR 0x0A then [] # splitLines cs
      else (case splitLines cs of [] \<Rightarrow> [[c]] | l # ls \<Rightarrow> (c # l) # ls))"

definition isWhiteSpace :: "char \<Rightarrow> bool" where
  "isWhiteSpace c = (c \<in> set [CHR 0x20, CHR 0x09, CHR 0x0A, CHR 0x0B, CHR 0x0C, CHR 0x0D])"

definition trim :: "string \<Rightarrow> string" where
  "trim s = rev (dropWhile isWhiteSpace (rev (dropWhile isWhiteSpace s)))"

definition extractDescription :: "string \<Rightarrow> string \<times> string \<Rightarrow> string" where
  "extractDescription response rx =
     (case find (regexTest rx) (splitLines response) of
        Some line \<Rightarrow> trim line
      | None \<Rightarrow> ''AI-generated healing strategy'')"

definition generateBasicImplementation :: "string \<times> string \<Rightarrow> string" where
  "generateBasicImplementation rx =
     (if regexTest rx ''locator''
        then ''return { success: true, locator: '' @ dquote @ ''#alternative-selector'' @ dquote @ '' };''
      else if regexTest rx ''wait''
        then ''await page.waitForTimeout(2000); return { success: true };''
      else if regexTest rx ''element''
        then ''await element.scrollIntoViewIfNeeded(); return { success: true };''
      else if regexTest rx ''navigation''
        then ''await page.reload(); return { success: true };''
      else if regexTest rx ''data''
        then ''return { success: true, healedData: testData };''
      else ''return { success: true };'')"

definition genericCandidates :: "candidate list" where
  "genericCandidates =
     [\<lparr>strategy = ''locator_healing'', description = Some ''Try alternative locators'',
       implementation =
         ImplString (''return { success: true, locator: '' @ dquote @ ''#alternative-selector''
                     @ dquote @ '' };''),
       confidence = Some 60, source = None, score = None\<rparr>,
      \<lparr>strategy = ''wait_healing'', description = Some ''Add explicit wait'',
       implementation = ImplString ''await page.waitForTimeout(2000); return { success: true };'',
       confidence = Some 60, source = None, score = None\<rparr>]"

definition parseHealingStrategies :: "(string \<Rightarrow> json_parse) \<Rightarrow> string \<Rightarrow> candidate list" where
  "parseHealingStrategies parse response =
     (case parse response of
        JsonArray parsed \<Rightarrow> parsed
      | JsonNotArray \<Rightarrow> []
      | JsonSyntaxError \<Rightarrow>
          (let strategies =
                 concat (map (\<lambda>rx. if regexTest rx response
                                     then [\<lparr>strategy = extractStrategyName response rx,
                                            description = Some (extractDescription response rx),
                                            implementation = ImplString (generateBasicImplementation rx),
                                            confidence = Some 70, source = None, score = None\<rparr>]
                                     else [])
                             strategyPatterns)
           in if length strategies = 0 then genericCandidates else strategies))"

text \<open>The learning data of an \<open>AIIntegration\<close> instance, as far as its ranking reads it.\<close>

record learning_entry =
  le_patterns :: "string list option"
  le_success :: bool
  le_testContext :: "context option"

record ai_integration =
  learningData :: "learning_entry list"

definition getHistoricalSuccessRate :: "ai_integration \<Rightarrow> string \<Rightarrow> rat" where
  "getHistoricalSuccessRate ai strategyType =
     (let relevantEntries =
            filter (\<lambda>entry. case le_patterns entry of
                              None \<Rightarrow> False
                            | Some ps \<Rightarrow> strategyType \<in> set ps)
                   (learningData ai)
      in if length relevantEntries = 0 then 1/2
         else of_nat (length (filter le_success relevantEntries))
              / of_nat (length relevantEntries))"

definition ai_calculateContextSimilarity :: "ai_integration \<Rightarrow> context \<Rightarrow> rat" where
  "ai_calculateContextSimilarity ai currentContext =
     (let similarEntries =
            filter (\<lambda>entry. Option.bind (le_testContext entry) testType = testType currentContext \<and>
                            Option.bind (le_testContext entry) pageUrl = pageUrl currentContext)
                   (learningData ai)
      in if length similarEntries > 0 then 8/10 else 3/10)"

definition ai_calculateStrategyScore :: "ai_integration \<Rightarrow> candidate \<Rightarrow> context \<Rightarrow> rat" where
  "ai_calculateStrategyScore ai s ctx =
     (let score0 = orDefault (confidence s) 50;
          score1 = score0 + getHistoricalSuccessRate ai (strategy s) * 20;
          score2 = score1 + ai_calculateContextSimilarity ai ctx * 10
      in min 100 score2)"

definition ai_rankStrategies :: "ai_integration \<Rightarrow> candidate list \<Rightarrow> context \<Rightarrow> candidate list" where
  "ai_rankStrategies ai strategies ctx =
     sort_key (\<lambda>s. - scoreValue s)
       (map (\<lambda>s. s\<lparr>score := Some (ai_calculateStrategyScore ai s ctx)\<rparr>) strategies)"

text \<open>
  \<open>generateHealingStrategies\<close>, given the outcome of \<open>await this.callAI(prompt)\<close>: the
  \<open>catch\<close> returns the empty list.
\<close>

definition generateHealingStrategies ::
  "ai_integration \<Rightarrow> (string \<Rightarrow> json_parse) \<Rightarrow> js_error + string \<Rightarrow> context \<Rightarrow> candidate list" where
  "generateHealingStrategies ai parse callAI ctx =
     (case callAI of
        Inl error \<Rightarrow> []
      | Inr response \<Rightarrow> ai_rankStrategies ai (parseHealingStrategies parse response) ctx)"

section \<open>HealingEngine.analyzeError\<close>

text \<open>\<open>x || d\<close> on an optional string: \<open>undefined\<close> and the empty string are falsy.\<close>

definition strOrDefault :: "string option \<Rightarrow> string \<Rightarrow> string" where
  "strOrDefault x d = (case x of None \<Rightarrow> d | Some v \<Rightarrow> if v = [] then d else v)"

definition extractContextData :: "context \<Rightarrow> context" where
  "extractContextData ctx =
     \<lparr>testType = Some (strOrDefault (testType ctx) ''ui''),
      pageUrl = Some (strOrDefault (pageUrl ctx) [])\<rparr>"

text \<open>\<open>new URL(url).hostname\<close> is a collaborator; \<open>None\<close> when the constructor throws.\<close>

definition extractDomain :: "(string \<Rightarrow> string option) \<Rightarrow> string \<Rightarrow> string" where
  "extractDomain hostnameOf u = (case hostnameOf u of None \<Rightarrow> ''unknown'' | Some h \<Rightarrow> h)"

definition findMatchingPatterns ::
  "(string \<Rightarrow> string option) \<Rightarrow> error_classification \<Rightarrow> context \<Rightarrow> string list" where
  "findMatchingPatterns hostnameOf et ctx =
     [classificationName et]
     @ (if testType ctx = Some ''ui'' then [''ui_'' @ classificationName et]
        else if testType ctx = Some ''api'' then [''api_'' @ classificationName et]
        else [])
     @ (case pageUrl ctx of
          None \<Rightarrow> []
        | Some u \<Rightarrow> if u = [] then []
                    else [extractDomain hostnameOf u @ ''_'' @ classificationName et])"

definition getPatternBasedStrategies ::
  "(string \<Rightarrow> string option) \<Rightarrow> engine \<Rightarrow> error_classification \<Rightarrow> context \<Rightarrow> candidate list" where
  "getPatternBasedStrategies hostnameOf e et ctx =
     concat (map (\<lambda>key. case mapGet (patterns e) key of
                          None \<Rightarrow> []
                        | Some p \<Rightarrow>
                            [\<lparr>strategy = p_name p, description = p_description p,
                              implementation = p_implementation p,
                              confidence = Some (successRate p * 100),
                              source = Some ''pattern'', score = None\<rparr>])
                 (findMatchingPatterns hostnameOf et ctx))"

record collaborators =
  callAI :: "js_error + string"
  parseJSON :: "string \<Rightarrow> json_parse"
  hostnameOf :: "string \<Rightarrow> string option"

definition analyzeError ::
  "collaborators \<Rightarrow> ai_integration \<Rightarrow> nat \<Rightarrow> engine \<Rightarrow> js_error \<Rightarrow> context \<Rightarrow> analysis" where
  "analyzeError co ai now e error ctx =
     (let et = classifyError error;
          contextData = extractContextData ctx;
          aiStrategies = generateHealingStrategies ai (parseJSON co) (callAI co) ctx;
          patternStrategies = getPatternBasedStrategies (hostnameOf co) e et contextData;
          allStrategies = aiStrategies @ patternStrategies;
          rankedStrategies = rankStrategies e allStrategies ctx
      in \<lparr>errorType = et, a_context = contextData, a_strategies = rankedStrategies,
          a_timestamp = now\<rparr>)"

section \<open>BaseFramework: the execution wrapper\<close>

definition healablePatterns :: "string list" where
  "healablePatterns =
     [''element not found'', ''timeout'', ''selector not found'', ''network error'',
      ''assertion failed'', ''element not visible'', ''element not clickable'']"

definition isHealableError :: "js_error \<Rightarrow> bool" where
  "isHealableError error =
     list_ex (\<lambda>p. strIncludes (toLowerCase (message error)) p) healablePatterns"

record framework_options =
  enableHealing :: bool
  enableAI :: bool
  maxHealingAttempts :: nat

record metrics =
  totalTests :: nat
  healedTests :: nat
  healingSuccessRate :: rat
  averageHealingTime :: nat

record healing_attempt =
  at_attempt :: nat
  at_strategy :: "analysis option"
  at_error :: "string option"

record framework_history =
  fh_timestamp :: nat
  fh_error :: string
  fh_strategy :: "analysis option"
  fh_attempt :: "nat option"
  fh_attempts :: "healing_attempt list option"
  fh_success :: bool

text \<open>
  The state of one \<open>BaseFramework\<close>: its options, metrics, own healing history and test
  context, and the state of its \<open>HealingEngine\<close> (the engine's stores and the learning data
  of the engine's own \<open>AIIntegration\<close>).
\<close>

record framework =
  fw_options :: framework_options
  fw_metrics :: metrics
  fw_healingHistory :: "framework_history list"
  testContext :: "context"
  healingEngine :: engine
  engineAI :: ai_integration

text \<open>
  What the framework's collaborators do during one \<open>executeTest\<close>: the engine's
  collaborators and executors, the clock (\<open>Date.now()\<close>), the measured duration of the test,
  and the effect of the best-effort post-test learning call on the engine's stores.
\<close>

record world =
  w_collaborators :: collaborators
  w_executors :: executors
  w_now :: nat
  w_duration :: nat
  w_postTestAnalysis :: "result \<Rightarrow> context \<Rightarrow> engine \<Rightarrow> engine"

datatype healing_return = HealingSucceeded result | HealingFailed "healing_attempt list"

text \<open>
  The loop of \<open>attemptHealing\<close>, counting the cycles that remain. Neither \<open>analyzeError\<close> nor
  \<open>applyHealing\<close> has an error result, so the \<open>catch\<close> of the loop body has no case here.
\<close>

fun attemptHealingLoop ::
  "world \<Rightarrow> js_error \<Rightarrow> testData \<Rightarrow> context \<Rightarrow> nat \<Rightarrow> nat \<Rightarrow> healing_attempt list
   \<Rightarrow> framework \<Rightarrow> healing_return \<times> framework" where
  "attemptHealingLoop w error td healingContext 0 attempt healingAttempts fw =
     (HealingFailed healingAttempts,
      fw\<lparr>fw_healingHistory := fw_healingHistory fw @
            [\<lparr>fh_timestamp = w_now w, fh_error = message error, fh_strategy = None,
              fh_attempt = None, fh_attempts = Some healingAttempts, fh_success = False\<rparr>]\<rparr>)"
| "attemptHealingLoop w error td healingContext (Suc remaining) attempt healingAttempts fw =
     (let healingStrategy =
            analyzeError (w_collaborators w) (engineAI fw) (w_now w) (healingEngine fw)
              error healingContext
      in case applyHealing (w_executors w) (w_now w) healingStrategy td healingContext
                (healingEngine fw) of
           (healingResult, e', invoked) \<Rightarrow>
             if success healingResult then
               (HealingSucceeded healingResult,
                fw\<lparr>healingEngine := e',
                   fw_healingHistory := fw_healingHistory fw @
                     [\<lparr>fh_timestamp = w_now w, fh_error = message error,
                       fh_strategy = Some healingStrategy, fh_attempt = Some attempt,
                       fh_attempts = None, fh_success = True\<rparr>]\<rparr>)
             else
               attemptHealingLoop w error td healingContext remaining (attempt + 1)
                 (healingAttempts @
                    [\<lparr>at_attempt = attempt, at_strategy = Some healingStrategy,
                      at_error = r_error healingResult\<rparr>])
                 (fw\<lparr>healingEngine := e'\<rparr>))"

definition attemptHealing ::
  "world \<Rightarrow> js_error \<Rightarrow> testData \<Rightarrow> framework \<Rightarrow> healing_return \<times> framework" where
  "attemptHealing w error td fw =
     attemptHealingLoop w error td (testContext fw)
       (maxHealingAttempts (fw_options fw)) 1 [] fw"

definition updateMetrics :: "nat \<Rightarrow> framework \<Rightarrow> framework" where
  "updateMetrics testDuration fw =
     fw\<lparr>fw_metrics := (fw_metrics fw)
          \<lparr>healingSuccessRate :=
             of_nat (healedTests (fw_metrics fw)) / of_nat (totalTests (fw_metrics fw)) * 100,
           averageHealingTime := testDuration\<rparr>\<rparr>"

text \<open>
  \<open>executeWithHealing\<close>: the error of the test function is re-thrown, wrapped in a
  \<open>HealableError\<close> when it is healable.
\<close>

definition executeWithHealing :: "(testData \<Rightarrow> js_error + result) \<Rightarrow> testData \<Rightarrow> js_error + result" where
  "executeWithHealing testFunction td =
     (case testFunction td of
        Inr r \<Rightarrow> Inr r
      | Inl error \<Rightarrow> if isHealableError error then Inl (HealableError error) else Inl error)"

text \<open>
  \<open>executeTest\<close>. The pre-test analysis only stores an AI analysis in the test context and
  is left out. The \<open>finally\<close> block updates the metrics on every path.
\<close>

definition executeTest ::
  "world \<Rightarrow> (testData \<Rightarrow> js_error + result) \<Rightarrow> testData \<Rightarrow> framework
   \<Rightarrow> (js_error + result) \<times> framework" where
  "executeTest w testFunction td fw =
     (let fw1 = fw\<lparr>fw_metrics := (fw_metrics fw)\<lparr>totalTests := totalTests (fw_metrics fw) + 1\<rparr>\<rparr>
      in case executeWithHealing testFunction td of
           Inr r \<Rightarrow>
             (let fw2 = (if enableAI (fw_options fw1)
                         then fw1\<lparr>healingEngine :=
                                   w_postTestAnalysis w r (testContext fw1) (healingEngine fw1)\<rparr>
                         else fw1)
              in (Inr r, updateMetrics (w_duration w) fw2))
         | Inl error \<Rightarrow>
             if enableHealing (fw_options fw1) then
               (case attemptHealing w error td fw1 of
                  (HealingSucceeded healingResult, fw2) \<Rightarrow>
                    (Inr healingResult,
                     updateMetrics (w_duration w)
                       (fw2\<lparr>fw_metrics := (fw_metrics fw2)
                              \<lparr>healedTests := healedTests (fw_metrics fw2) + 1\<rparr>\<rparr>))
                | (HealingFailed healingAttempts, fw2) \<Rightarrow>
                    (Inl error, updateMetrics (w_duration w) fw2))
             else (Inl error, updateMetrics (w_duration w) fw1))"

text \<open>The executors of an engine whose UI strategies are the modelled \<open>UIFealingStrategies\<close>.\<close>

definition withUIStrategies :: "ui_strategies \<Rightarrow> executors \<Rightarrow> executors" where
  "withUIStrategies ui ex =
     ex\<lparr>ui_healLocatorIssue := (\<lambda>s td ctx. Inr (Some (healLocatorIssue ui s td ctx))),
        ui_healWaitIssue := (\<lambda>s td ctx. Inr (Some (healWaitIssue ui s td ctx))),
        ui_healElementStateIssue := (\<lambda>s td ctx. Inr (Some (healElementStateIssue ui s td ctx))),
        ui_healNavigationIssue := (\<lambda>s td ctx. Inr (Some (healNavigationIssue ui s td ctx)))\<rparr>"

text \<open>
  A framework as its constructor leaves it: default options (healing and AI enabled, three
  healing attempts), zero metrics, empty histories and stores.
\<close>

definition newFramework :: framework where
  "newFramework =
     \<lparr>fw_options = \<lparr>enableHealing = True, enableAI = True, maxHealingAttempts = 3\<rparr>,
      fw_metrics = \<lparr>totalTests = 0, healedTests = 0, healingSuccessRate = 0,
                    averageHealingTime = 0\<rparr>,
      fw_healingHistory = [],
      testContext = \<lparr>testType = Some ''ui'', pageUrl = None\<rparr>,
      healingEngine = \<lparr>healingHistory = [], patterns = [], successRates = []\<rparr>,
      engineAI = \<lparr>learningData = []\<rparr>\<rparr>"

section \<open>Example values\<close>

text \<open>
  The state of a newly constructed engine (empty history, empty maps), and the concrete
  strategies, contexts and stores at which the theorems below are instantiated.
\<close>

definition freshEngine :: engine where
  "freshEngine = \<lparr>healingHistory = [], patterns = [], successRates = []\<rparr>"

definition mkCandidate :: "string \<Rightarrow> rat option \<Rightarrow> candidate" where
  "mkCandidate n c =
     \<lparr>strategy = n, description = None, implementation = ImplOther, confidence = c,
      source = None, score = None\<rparr>"

definition exampleContext :: "context" where
  "exampleContext = \<lparr>testType = Some ''ui'', pageUrl = Some ''https://example.com''\<rparr>"

definition waitPattern :: pattern where
  "waitPattern =
     \<lparr>p_name = ''wait_healing'', p_description = None, p_implementation = ImplOther,
      successCount = 1, totalCount = 1, successRate = 1\<rparr>"

text \<open>The store of a fresh engine after one recorded success of \<open>wait_healing\<close>.\<close>

definition learnedEngine :: engine where
  "learnedEngine =
     \<lparr>healingHistory =
        [\<lparr>h_timestamp = 1, h_strategy = ''wait_healing'', h_success = True,
          h_result = emptyResult\<lparr>success := True\<rparr>,
          h_context = Some \<lparr>testType = None, pageUrl = None\<rparr>\<rparr>],
      patterns = [(''wait_healing'', waitPattern)],
      successRates = [(''wait_healing'', 3/4)]\<rparr>"




definition exampleRecord :: "nat \<Rightarrow> healing_record" where
  "exampleRecord t =
     \<lparr>h_timestamp = t, h_strategy = ''wait_healing'', h_success = True,
      h_result = emptyResult\<lparr>success := True\<rparr>, h_context = Some exampleContext\<rparr>"

definition exampleTestData :: testData where
  "exampleTestData =
     \<lparr>td_element = Some \<lparr>locator = None, selector = Some ''#test''\<rparr>,
      td_page = None, td_url = None\<rparr>"

definition exampleExecutors :: executors where
  "exampleExecutors =
     \<lparr>ui_healLocatorIssue =
        (\<lambda>s td ctx. Inr (Some (emptyResult\<lparr>r_error := Some ''Locator healing failed''\<rparr>))),
      ui_healWaitIssue =
        (\<lambda>s td ctx. Inr (Some (emptyResult\<lparr>success := True, r_strategy := Some ''wait_healing''\<rparr>))),
      ui_healElementStateIssue = (\<lambda>s td ctx. Inl (Error ''page crashed'')),
      ui_healNavigationIssue = (\<lambda>s td ctx. Inr None),
      api_healEndpointIssue = (\<lambda>s td ctx. Inr (Some emptyResult)),
      api_healSchemaIssue = (\<lambda>s td ctx. Inr (Some emptyResult)),
      api_healResponseIssue = (\<lambda>s td ctx. Inr (Some emptyResult)),
      ai_healTestData = (\<lambda>td s. Inr td),
      evalImplementation = (\<lambda>code td. Inl (Error ''Unexpected token''))\<rparr>"

definition exampleAnalysis :: "candidate list \<Rightarrow> analysis" where
  "exampleAnalysis strategies =
     \<lparr>errorType = locator_failure, a_context = exampleContext, a_strategies = strategies,
      a_timestamp = 0\<rparr>"


definition shippedUI :: ui_strategies where
  "shippedUI =
     \<lparr>enableAILocatorGeneration = True,
      generateLocators = shippedGenerateLocators,
      livePageLocator = (\<lambda>s td p ctx. emptyResult),
      livePageWait = (\<lambda>s td p ctx. emptyResult),
      livePageElementState = (\<lambda>s td p ctx. emptyResult),
      livePageNavigation = (\<lambda>s td p ctx. emptyResult)\<rparr>"

definition unparseable :: "string \<Rightarrow> json_parse" where
  "unparseable response = JsonSyntaxError"

definition noLearning :: ai_integration where
  "noLearning = \<lparr>learningData = []\<rparr>"

definition exampleCollaborators :: "js_error + string \<Rightarrow> collaborators" where
  "exampleCollaborators outcome =
     \<lparr>callAI = outcome, parseJSON = unparseable, hostnameOf = (\<lambda>u. Some ''example.com'')\<rparr>"

definition unhealableTest :: "testData \<Rightarrow> js_error + result" where
  "unhealableTest td = Inl (Error ''unrelated syntax problem'')"

definition chattyWorld :: world where
  "chattyWorld =
     \<lparr>w_collaborators = exampleCollaborators (Inr ''Sorry, I cannot help with that.''),
      w_executors = withUIStrategies shippedUI exampleExecutors,
      w_now = 100, w_duration = 12,
      w_postTestAnalysis = (\<lambda>r ctx e. e)\<rparr>"

definition offlineWorld :: world where
  "offlineWorld =
     \<lparr>w_collaborators =
        exampleCollaborators (Inl (Error ''OpenAI client not initialized. Check your API key.'')),
      w_executors = withUIStrategies shippedUI exampleExecutors,
      w_now = 100, w_duration = 12,
      w_postTestAnalysis = (\<lambda>r ctx e. e)\<rparr>"


section \<open>Properties of the string functions\<close>

lemma startsWith_iff: "startsWith s p \<longleftrightarrow> (\<exists>post. s = p @ post)"
  by (induction s p rule: startsWith.induct) auto

lemma strIncludes_iff: "strIncludes s p \<longleftrightarrow> (\<exists>pre post. s = pre @ p @ post)"
proof (induction s)
  case Nil
  then show ?case by auto
next
  case (Cons c cs)
  show ?case
  proof
    assume "strIncludes (c # cs) p"
    then consider "startsWith (c # cs) p" | "strIncludes cs p" by auto
    then show "\<exists>pre post. c # cs = pre @ p @ post"
    proof cases
      case 1
      then obtain post where "c # cs = p @ post" by (auto simp: startsWith_iff)
      then have "c # cs = [] @ p @ post" by simp
      then show ?thesis by blast
    next
      case 2
      with Cons obtain pre post where "cs = pre @ p @ post" by auto
      then have "c # cs = (c # pre) @ p @ post" by simp
      then show ?thesis by blast
    qed
  next
    assume "\<exists>pre post. c # cs = pre @ p @ post"
    then obtain pre post where e: "c # cs = pre @ p @ post" by auto
    show "strIncludes (c # cs) p"
    proof (cases pre)
      case Nil
      with e have "startsWith (c # cs) p" by (auto simp: startsWith_iff)
      then show ?thesis by simp
    next
      case (Cons a pre')
      with e have "cs = pre' @ p @ post" by simp
      with Cons.IH have "strIncludes cs p" by blast
      then show ?thesis by simp
    qed
  qed
qed

section \<open>The error classifier\<close>

text \<open>
  C5. For every error message, \<open>classifyError\<close> is the first-match scan of the priority
  table locator, wait, element_state, navigation, api, assertion, network, unknown over the
  lower-cased message; in particular a message that contains "timeout" (after lower-casing)
  and neither of the locator patterns is classified \<open>wait_failure\<close>. The classifier is a
  total function of the message: it reads no state and has no error result.
\<close>

theorem classifyError_priority_order:
  "classifyError error = firstMatch priorityTable (toLowerCase (message error)) \<and>
   (strIncludes (toLowerCase (message error)) ''timeout'' \<and>
    \<not> strIncludes (toLowerCase (message error)) ''element not found'' \<and>
    \<not> strIncludes (toLowerCase (message error)) ''selector''
    \<longrightarrow> classifyError error = wait_failure)"
  by (simp add: classifyError_def priorityTable_def Let_def)

theorem classifyError_priority_order_witness:
  "strIncludes (toLowerCase (message (Error ''Navigation TIMEOUT after 30s''))) ''timeout'' \<and>
   \<not> strIncludes (toLowerCase (message (Error ''Navigation TIMEOUT after 30s''))) ''element not found'' \<and>
   \<not> strIncludes (toLowerCase (message (Error ''Navigation TIMEOUT after 30s''))) ''selector'' \<and>
   classifyError (Error ''Navigation TIMEOUT after 30s'') = wait_failure \<and>
   classifyError (Error ''Navigation TIMEOUT after 30s'') =
     firstMatch priorityTable (toLowerCase (message (Error ''Navigation TIMEOUT after 30s'')))"
proof -
  have l: "toLowerCase (message (Error ''Navigation TIMEOUT after 30s'')) = ''navigation timeout after 30s''"
    by (simp add: toLowerCase_def toLowerChar_def)
  have h: "strIncludes ''navigation timeout after 30s'' ''timeout'' \<and>
    \<not> strIncludes ''navigation timeout after 30s'' ''element not found'' \<and>
    \<not> strIncludes ''navigation timeout after 30s'' ''selector''"
    by simp
  show ?thesis
    using classifyError_priority_order [of "Error ''Navigation TIMEOUT after 30s''"] h
    unfolding l by auto
qed

section \<open>Maps and persistence\<close>

lemma mapGet_mapSet_same: "mapGet (mapSet m k v) k = Some v"
  by (induction m) (auto simp: mapGet_def)

lemma mapGet_mapSet_other: "k' \<noteq> k \<Longrightarrow> mapGet (mapSet m k v) k' = mapGet m k'"
  by (induction m) (auto simp: mapGet_def)

lemma mapSet_keys: "fst ` set (mapSet m k v) = insert k (fst ` set m)"
proof (induction m)
  case Nil
  then show ?case by simp
next
  case (Cons a m)
  obtain k' v' where a: "a = (k', v')" by (cases a)
  show ?case
    by (cases "k' = k") (simp_all add: a Cons.IH insert_commute)
qed

lemma mapSet_keys_distinct: "distinct (map fst m) \<Longrightarrow> distinct (map fst (mapSet m k v))"
proof (induction m)
  case Nil
  then show ?case by simp
next
  case (Cons a m)
  obtain k' v' where a: "a = (k', v')" by (cases a)
  show ?case
  proof (cases "k' = k")
    case True
    with Cons.prems a show ?thesis by simp
  next
    case False
    with Cons a mapSet_keys [of m k v] show ?thesis by auto
  qed
qed

lemma mapSet_append_fresh: "k \<notin> fst ` set m \<Longrightarrow> mapSet m k v = m @ [(k, v)]"
  by (induction m) auto

lemma foldl_mapSet_distinct:
  "distinct (map fst (acc @ entries)) \<Longrightarrow>
   foldl (\<lambda>m (k, v). mapSet m k v) acc entries = acc @ entries"
proof (induction entries arbitrary: acc)
  case Nil
  then show ?case by simp
next
  case (Cons a entries)
  obtain k v where a: "a = (k, v)" by (cases a)
  from Cons.prems a have fresh: "k \<notin> fst ` set acc" by auto
  have "foldl (\<lambda>m (k, v). mapSet m k v) acc (a # entries)
        = foldl (\<lambda>m (k, v). mapSet m k v) (acc @ [(k, v)]) entries"
    using fresh by (simp add: a mapSet_append_fresh)
  also have "\<dots> = (acc @ [(k, v)]) @ entries"
    using Cons.prems a by (intro Cons.IH) simp
  finally show ?case by (simp add: a)
qed

lemma newMap_entries: "distinct (map fst m) \<Longrightarrow> newMap m = m"
  using foldl_mapSet_distinct [of "[]" m] by (simp add: newMap_def)



lemma jsonEntries_keys: "map fst (jsonEntries m) = map fst m"
  by (induction m) (auto simp: jsonEntries_def)


lemma save_then_load:
  assumes "distinct (map fst (patterns e))" and "distinct (map fst (successRates e))"
    and "\<not> list_ex hasLivePage (sliceLast 1000 (healingHistory e))"
  shows "loadHealingPatterns (saveHealingPatterns now e previous) e0 =
     \<lparr>healingHistory = sliceLast 1000 (healingHistory e),
      patterns = jsonEntries (patterns e), successRates = successRates e\<rparr>"
proof -
  have "distinct (map fst (jsonEntries (patterns e)))"
    using assms(1) by (simp add: jsonEntries_keys)
  then have "newMap (jsonEntries (patterns e)) = jsonEntries (patterns e)"
    by (rule newMap_entries)
  then show ?thesis
    using assms(2,3)
    by (simp add: loadHealingPatterns_def saveHealingPatterns_def writeJson_def newMap_entries)
qed

lemma save_skipped_on_live_page:
  "list_ex hasLivePage (sliceLast 1000 (healingHistory e)) \<Longrightarrow>
   saveHealingPatterns now e previous = previous"
  by (simp add: saveHealingPatterns_def writeJson_def)




lemma persist_reload_truncates_example:
  "healingHistory (loadHealingPatterns
      (saveHealingPatterns 7
         (freshEngine\<lparr>healingHistory := exampleRecord 0 # replicate 1000 (exampleRecord 1)\<rparr>)
         NoFile)
      freshEngine)
   = replicate 1000 (exampleRecord 1)"
  by (simp add: loadHealingPatterns_def saveHealingPatterns_def writeJson_def sliceLast_def
        freshEngine_def newMap_def jsonEntries_def hasLivePage_def exampleRecord_def
        emptyResult_def list_ex_iff)

section \<open>Learning updates\<close>

lemma updatePatterns_successRates: "successRates (updatePatterns s b e) = successRates e"
  by (simp add: updatePatterns_def Let_def mapGet_mapSet_same split: option.splits)

lemma updatePatterns_history: "healingHistory (updatePatterns s b e) = healingHistory e"
  by (simp add: updatePatterns_def Let_def split: option.splits)

lemma updatePatterns_fresh:
  "mapGet (patterns e) (strategy s) = None \<Longrightarrow>
   mapGet (patterns (updatePatterns s b e)) (strategy s) =
     Some \<lparr>p_name = strategy s, p_description = description s,
           p_implementation = implementation s,
           successCount = (if b then 1 else 0), totalCount = 1,
           successRate = (if b then 1 else 0)\<rparr>"
proof -
  assume n: "mapGet (patterns e) (strategy s) = None"
  then have h: "\<not> mapHas (patterns e) (strategy s)"
    by (simp add: mapHas_def mapGet_def)
  show ?thesis
    by (simp add: updatePatterns_def Let_def h mapGet_mapSet_same)
qed

lemma updatePatterns_known:
  "mapGet (patterns e) (strategy s) = Some p \<Longrightarrow>
   mapGet (patterns (updatePatterns s b e)) (strategy s) =
     Some (p\<lparr>totalCount := totalCount p + 1,
             successCount := (if b then successCount p + 1 else successCount p),
             successRate := of_nat (if b then successCount p + 1 else successCount p)
                            / of_nat (totalCount p + 1)\<rparr>)"
proof -
  assume n: "mapGet (patterns e) (strategy s) = Some p"
  then have h: "mapHas (patterns e) (strategy s)"
    by (simp add: mapHas_def mapGet_def)
  show ?thesis
    by (simp add: updatePatterns_def Let_def h n mapGet_mapSet_same)
qed

lemma recordSuccessfulHealing_patterns:
  "patterns (recordSuccessfulHealing now s r e) = patterns (updatePatterns s True e)"
  by (simp add: recordSuccessfulHealing_def updatePatterns_def Let_def split: option.splits)

lemma recordSuccessfulHealing_rate:
  "mapGet (successRates (recordSuccessfulHealing now s r e)) (strategy s) =
     Some ((orDefault (mapGet (successRates e) (strategy s)) (1/2) + 1) / 2)"
  by (simp add: recordSuccessfulHealing_def Let_def updatePatterns_successRates mapGet_mapSet_same)

lemma recordSuccessfulHealing_history:
  "healingHistory (recordSuccessfulHealing now s r e) =
     healingHistory e @
       [\<lparr>h_timestamp = now, h_strategy = strategy s, h_success = True, h_result = r,
         h_context = Some (case r_context r of
                             None \<Rightarrow> \<lparr>testType = None, pageUrl = None\<rparr> | Some c \<Rightarrow> c)\<rparr>]"
  by (simp add: recordSuccessfulHealing_def Let_def updatePatterns_history)

section \<open>The store invariant\<close>

text \<open>
  The maps of an engine keep unique keys and positive success rates: a new engine has empty
  maps, the learning updates go through \<open>set\<close> and store \<open>(rate + 1) / 2\<close>, and a loaded map
  is built by \<open>new Map\<close> from a file that the engine wrote.
\<close>

lemma foldl_mapSet_keys_distinct:
  "distinct (map fst acc) \<Longrightarrow>
   distinct (map fst (foldl (\<lambda>m (k, v). mapSet m k v) acc entries))"
proof (induction entries arbitrary: acc)
  case Nil
  then show ?case by simp
next
  case (Cons a entries)
  obtain k v where a: "a = (k, v)" by (cases a)
  show ?case
    using Cons.IH [of "mapSet acc k v"] mapSet_keys_distinct [OF Cons.prems, of k v]
    by (simp add: a)
qed

lemma newMap_keys_distinct: "distinct (map fst (newMap entries))"
  using foldl_mapSet_keys_distinct [of "[]" entries] by (simp add: newMap_def)

lemma mapSet_subset: "set (mapSet m k v) \<subseteq> insert (k, v) (set m)"
proof (induction m)
  case Nil
  then show ?case by simp
next
  case (Cons a m)
  obtain k' v' where a: "a = (k', v')" by (cases a)
  show ?case
  proof (cases "k' = k")
    case True
    then show ?thesis by (auto simp: a)
  next
    case False
    with Cons.IH show ?thesis by (auto simp: a)
  qed
qed

lemma foldl_mapSet_subset:
  "set (foldl (\<lambda>m (k, v). mapSet m k v) acc entries) \<subseteq> set acc \<union> set entries"
proof (induction entries arbitrary: acc)
  case Nil
  then show ?case by simp
next
  case (Cons a entries)
  obtain k v where a: "a = (k, v)" by (cases a)
  show ?case
    using Cons.IH [of "mapSet acc k v"] mapSet_subset [of acc k v]
    by (auto simp: a)
qed

lemma newMap_subset: "set (newMap entries) \<subseteq> set entries"
  using foldl_mapSet_subset [of "[]" entries] by (simp add: newMap_def)

lemma positive_mapSet:
  "list_all (\<lambda>(k, r). (0::rat) < r) m \<Longrightarrow> 0 < v \<Longrightarrow> list_all (\<lambda>(k, r). 0 < r) (mapSet m k v)"
  using mapSet_subset [of m k v] by (auto simp: list_all_iff)

lemma positive_lookup:
  "list_all (\<lambda>(k, r). (0::rat) < r) m \<Longrightarrow> mapGet m k = Some r \<Longrightarrow> 0 < r"
  by (auto simp: list_all_iff mapGet_def dest: map_of_SomeD)

lemma storeInvariant_fresh: "storeInvariant freshEngine"
  by (simp add: storeInvariant_def freshEngine_def)

lemma updatePatterns_keys_distinct:
  "distinct (map fst (patterns e)) \<Longrightarrow> distinct (map fst (patterns (updatePatterns s b e)))"
  by (simp add: updatePatterns_def Let_def mapSet_keys_distinct split: option.splits)

lemma storeInvariant_updatePatterns:
  "storeInvariant e \<Longrightarrow> storeInvariant (updatePatterns s b e)"
  by (simp add: storeInvariant_def updatePatterns_keys_distinct updatePatterns_successRates)

lemma storeInvariant_recordSuccessfulHealing:
  assumes "storeInvariant e"
  shows "storeInvariant (recordSuccessfulHealing now s r e)"
proof -
  have p: "distinct (map fst (patterns (recordSuccessfulHealing now s r e)))"
    using assms
    by (simp add: storeInvariant_def recordSuccessfulHealing_patterns updatePatterns_keys_distinct)
  have eq: "successRates (recordSuccessfulHealing now s r e) =
        mapSet (successRates e) (strategy s)
          ((orDefault (mapGet (successRates e) (strategy s)) (1/2) + 1) / 2)"
    by (simp add: recordSuccessfulHealing_def Let_def updatePatterns_successRates)
  have "0 < orDefault (mapGet (successRates e) (strategy s)) (1/2)"
    using assms positive_lookup [of "successRates e" "strategy s"]
    by (auto simp: storeInvariant_def orDefault_def split: option.splits)
  then have pos: "0 < (orDefault (mapGet (successRates e) (strategy s)) (1/2) + 1) / 2"
    by simp
  show ?thesis
    using assms p pos
    by (simp add: storeInvariant_def eq mapSet_keys_distinct positive_mapSet)
qed

lemma storeInvariant_reload:
  assumes "storeInvariant e" and "\<not> list_ex hasLivePage (sliceLast 1000 (healingHistory e))"
  shows "storeInvariant (loadHealingPatterns (saveHealingPatterns now e previous) e0)"
  using assms save_then_load [of e now previous e0]
  by (simp add: storeInvariant_def jsonEntries_keys)

lemma storeInvariant_no_file:
  "loadHealingPatterns NoFile e = e \<and> loadHealingPatterns CorruptFile e = e"
  by (simp add: loadHealingPatterns_def)

lemma learnedEngine_reached:
  "learnedEngine =
     recordSuccessfulHealing 1 (mkCandidate ''wait_healing'' (Some 70))
       (emptyResult\<lparr>success := True\<rparr>) freshEngine"
  by (simp add: learnedEngine_def waitPattern_def recordSuccessfulHealing_def updatePatterns_def
        orDefault_def mapGet_def mapHas_def mkCandidate_def freshEngine_def emptyResult_def Let_def)

lemma storeInvariant_learned: "storeInvariant learnedEngine"
  unfolding learnedEngine_reached
  by (rule storeInvariant_recordSuccessfulHealing) (rule storeInvariant_fresh)

lemma recordSuccessfulHealing_pattern_counts:
  "\<exists>p. mapGet (patterns (recordSuccessfulHealing now s r e)) (strategy s) = Some p \<and>
        totalCount p = (case mapGet (patterns e) (strategy s) of
                          None \<Rightarrow> 1 | Some q \<Rightarrow> totalCount q + 1) \<and>
        successCount p = (case mapGet (patterns e) (strategy s) of
                            None \<Rightarrow> 1 | Some q \<Rightarrow> successCount q + 1) \<and>
        successRate p = of_nat (successCount p) / of_nat (totalCount p)"
proof (cases "mapGet (patterns e) (strategy s)")
  case None
  show ?thesis
    using updatePatterns_fresh [OF None, of True]
    by (simp add: recordSuccessfulHealing_patterns None)
next
  case (Some q)
  show ?thesis
    using updatePatterns_known [OF Some, of True]
    by (simp add: recordSuccessfulHealing_patterns Some)
qed

lemma recordSuccessfulHealing_rate_on_store:
  assumes "storeInvariant e"
  shows "mapGet (successRates (recordSuccessfulHealing now s r e)) (strategy s) =
           Some ((spec_historicalSuccessRate e (strategy s) + 1) / 2)"
proof -
  have "orDefault (mapGet (successRates e) (strategy s)) (1/2) =
          spec_historicalSuccessRate e (strategy s)"
    using assms positive_lookup [of "successRates e" "strategy s"]
    by (auto simp: storeInvariant_def orDefault_def spec_historicalSuccessRate_def
             split: option.splits)
  then show ?thesis
    by (simp add: recordSuccessfulHealing_rate)
qed

text \<open>
  C7. On every store of an engine, \<open>recordSuccessfulHealing\<close> increments \<open>successCount\<close> and
  \<open>totalCount\<close> of the strategy's pattern and sets \<open>successRate\<close> to their quotient; called
  twice for a fresh name it leaves 2, 2 and 1. The success-rate entry becomes
  (old + 1) / 2, where the old rate of an absent name is 0.5: one success gives 0.75 and a
  second 0.875. Recording a failure in the pattern table (\<open>updatePatterns\<close> with \<open>false\<close>)
  does not touch the success-rate table.
\<close>

theorem recordSuccessfulHealing_learning_rules:
  "storeInvariant e \<longrightarrow>
   (mapGet (patterns e) (strategy s) = Some p \<longrightarrow>
      mapGet (patterns (recordSuccessfulHealing now s r e)) (strategy s) =
        Some (p\<lparr>totalCount := totalCount p + 1, successCount := successCount p + 1,
                 successRate := of_nat (successCount p + 1) / of_nat (totalCount p + 1)\<rparr>)) \<and>
   (mapGet (patterns e) (strategy s) = None \<longrightarrow>
      (\<exists>p. mapGet (patterns (recordSuccessfulHealing now s r e)) (strategy s) = Some p \<and>
           successCount p = 1 \<and> totalCount p = 1 \<and> successRate p = 1) \<and>
      (\<exists>p. mapGet (patterns (recordSuccessfulHealing now' s r'
                (recordSuccessfulHealing now s r e))) (strategy s) = Some p \<and>
           successCount p = 2 \<and> totalCount p = 2 \<and> successRate p = 1)) \<and>
   (mapGet (successRates e) (strategy s) = Some old \<longrightarrow>
      mapGet (successRates (recordSuccessfulHealing now s r e)) (strategy s) =
        Some ((old + 1) / 2)) \<and>
   (mapGet (successRates e) (strategy s) = None \<longrightarrow>
      mapGet (successRates (recordSuccessfulHealing now s r e)) (strategy s) = Some (3/4) \<and>
      mapGet (successRates (recordSuccessfulHealing now' s r'
                (recordSuccessfulHealing now s r e))) (strategy s) = Some (7/8)) \<and>
   successRates (updatePatterns s False e) = successRates e \<and>
   storeInvariant (recordSuccessfulHealing now s r e)"
proof
  assume inv: "storeInvariant e"
  have fresh1: "\<exists>p. mapGet (patterns (recordSuccessfulHealing now s r e)) (strategy s) = Some p \<and>
           successCount p = 1 \<and> totalCount p = 1 \<and> successRate p = 1"
    if "mapGet (patterns e) (strategy s) = None"
    using updatePatterns_fresh [OF that, of True]
    by (simp add: recordSuccessfulHealing_patterns)
  have fresh2: "\<exists>p. mapGet (patterns (recordSuccessfulHealing now' s r'
                (recordSuccessfulHealing now s r e))) (strategy s) = Some p \<and>
           successCount p = 2 \<and> totalCount p = 2 \<and> successRate p = 1"
    if "mapGet (patterns e) (strategy s) = None"
  proof -
    from fresh1 [OF that] obtain p where
      p: "mapGet (patterns (recordSuccessfulHealing now s r e)) (strategy s) = Some p"
         "successCount p = 1" "totalCount p = 1" by blast
    show ?thesis
      using updatePatterns_known [OF p(1), of True] p(2,3)
      by (simp add: recordSuccessfulHealing_patterns)
  qed
  have known: "mapGet (patterns (recordSuccessfulHealing now s r e)) (strategy s) =
        Some (p\<lparr>totalCount := totalCount p + 1, successCount := successCount p + 1,
                 successRate := of_nat (successCount p + 1) / of_nat (totalCount p + 1)\<rparr>)"
    if "mapGet (patterns e) (strategy s) = Some p"
    using updatePatterns_known [OF that, of True]
    by (simp add: recordSuccessfulHealing_patterns)
  have stored: "mapGet (successRates (recordSuccessfulHealing now s r e)) (strategy s) =
        Some ((old + 1) / 2)"
    if "mapGet (successRates e) (strategy s) = Some old"
  proof -
    have "0 < old"
      using inv that positive_lookup [of "successRates e" "strategy s" old]
      by (simp add: storeInvariant_def)
    then show ?thesis
      using that by (simp add: recordSuccessfulHealing_rate orDefault_def)
  qed
  have absent: "mapGet (successRates (recordSuccessfulHealing now s r e)) (strategy s) = Some (3/4) \<and>
      mapGet (successRates (recordSuccessfulHealing now' s r'
                (recordSuccessfulHealing now s r e))) (strategy s) = Some (7/8)"
    if "mapGet (successRates e) (strategy s) = None"
    using that by (simp add: recordSuccessfulHealing_rate orDefault_def)
  show "(mapGet (patterns e) (strategy s) = Some p \<longrightarrow>
      mapGet (patterns (recordSuccessfulHealing now s r e)) (strategy s) =
        Some (p\<lparr>totalCount := totalCount p + 1, successCount := successCount p + 1,
                 successRate := of_nat (successCount p + 1) / of_nat (totalCount p + 1)\<rparr>)) \<and>
   (mapGet (patterns e) (strategy s) = None \<longrightarrow>
      (\<exists>p. mapGet (patterns (recordSuccessfulHealing now s r e)) (strategy s) = Some p \<and>
           successCount p = 1 \<and> totalCount p = 1 \<and> successRate p = 1) \<and>
      (\<exists>p. mapGet (patterns (recordSuccessfulHealing now' s r'
                (recordSuccessfulHealing now s r e))) (strategy s) = Some p \<and>
           successCount p = 2 \<and> totalCount p = 2 \<and> successRate p = 1)) \<and>
   (mapGet (successRates e) (strategy s) = Some old \<longrightarrow>
      mapGet (successRates (recordSuccessfulHealing now s r e)) (strategy s) =
        Some ((old + 1) / 2)) \<and>
   (mapGet (successRates e) (strategy s) = None \<longrightarrow>
      mapGet (successRates (recordSuccessfulHealing now s r e)) (strategy s) = Some (3/4) \<and>
      mapGet (successRates (recordSuccessfulHealing now' s r'
                (recordSuccessfulHealing now s r e))) (strategy s) = Some (7/8)) \<and>
   successRates (updatePatterns s False e) = successRates e \<and>
   storeInvariant (recordSuccessfulHealing now s r e)"
    using fresh1 fresh2 known stored absent updatePatterns_successRates [of s False e]
      storeInvariant_recordSuccessfulHealing [OF inv, of now s r]
    by blast
qed

theorem recordSuccessfulHealing_learning_rules_witness:
  "storeInvariant freshEngine \<and>
   mapGet (patterns freshEngine) ''locator_healing'' = None \<and>
   mapGet (successRates freshEngine) ''locator_healing'' = None \<and>
   (\<exists>p. mapGet (patterns (recordSuccessfulHealing 1 (mkCandidate ''locator_healing'' (Some 80))
                 (emptyResult\<lparr>success := True\<rparr>) freshEngine)) ''locator_healing'' = Some p \<and>
        successCount p = 1 \<and> totalCount p = 1 \<and> successRate p = 1) \<and>
   (\<exists>p. mapGet (patterns (recordSuccessfulHealing 2 (mkCandidate ''locator_healing'' (Some 80))
                 (emptyResult\<lparr>success := True\<rparr>)
                 (recordSuccessfulHealing 1 (mkCandidate ''locator_healing'' (Some 80))
                    (emptyResult\<lparr>success := True\<rparr>) freshEngine))) ''locator_healing'' = Some p \<and>
        successCount p = 2 \<and> totalCount p = 2 \<and> successRate p = 1) \<and>
   mapGet (successRates (recordSuccessfulHealing 1 (mkCandidate ''locator_healing'' (Some 80))
                 (emptyResult\<lparr>success := True\<rparr>) freshEngine)) ''locator_healing'' = Some (3/4) \<and>
   mapGet (successRates (recordSuccessfulHealing 2 (mkCandidate ''locator_healing'' (Some 80))
                 (emptyResult\<lparr>success := True\<rparr>)
                 (recordSuccessfulHealing 1 (mkCandidate ''locator_healing'' (Some 80))
                    (emptyResult\<lparr>success := True\<rparr>) freshEngine))) ''locator_healing'' = Some (7/8) \<and>
   storeInvariant learnedEngine \<and>
   mapGet (successRates learnedEngine) ''wait_healing'' = Some (3/4) \<and>
   mapGet (successRates (recordSuccessfulHealing 1 (mkCandidate ''wait_healing'' (Some 70))
                 (emptyResult\<lparr>success := True\<rparr>) learnedEngine)) ''wait_healing'' = Some (7/8) \<and>
   mapGet (patterns learnedEngine) ''wait_healing'' = Some waitPattern \<and>
   (\<exists>p. mapGet (patterns (recordSuccessfulHealing 1 (mkCandidate ''wait_healing'' (Some 70))
                 (emptyResult\<lparr>success := True\<rparr>) learnedEngine)) ''wait_healing'' = Some p \<and>
        successCount p = 2 \<and> totalCount p = 2 \<and> successRate p = 1)"
proof -
  have n: "strategy (mkCandidate n c) = n" for n c
    by (simp add: mkCandidate_def)
  have f: "mapGet (patterns freshEngine) ''locator_healing'' = None \<and>
   mapGet (successRates freshEngine) ''locator_healing'' = None"
    by (simp add: mapGet_def freshEngine_def)
  have l: "mapGet (successRates learnedEngine) ''wait_healing'' = Some (3/4) \<and>
    mapGet (patterns learnedEngine) ''wait_healing'' = Some waitPattern"
    by (simp add: mapGet_def learnedEngine_def)
  note fresh = recordSuccessfulHealing_learning_rules
      [where e = freshEngine and s = "mkCandidate ''locator_healing'' (Some 80)" and now = 1
         and old = 1 and p = waitPattern
         and now' = 2 and r = "emptyResult\<lparr>success := True\<rparr>"
         and r' = "emptyResult\<lparr>success := True\<rparr>", unfolded n, rule_format,
       OF storeInvariant_fresh]
  note learned = recordSuccessfulHealing_learning_rules
      [where e = learnedEngine and s = "mkCandidate ''wait_healing'' (Some 70)" and now = 1
         and old = "3/4" and p = waitPattern
         and now' = 2 and r = "emptyResult\<lparr>success := True\<rparr>"
         and r' = "emptyResult\<lparr>success := True\<rparr>", unfolded n, rule_format,
       OF storeInvariant_learned]
  have w: "\<exists>p. mapGet (patterns (recordSuccessfulHealing 1 (mkCandidate ''wait_healing'' (Some 70))
                 (emptyResult\<lparr>success := True\<rparr>) learnedEngine)) ''wait_healing'' = Some p \<and>
        successCount p = 2 \<and> totalCount p = 2 \<and> successRate p = 1"
    using learned l by (simp add: waitPattern_def)
  show ?thesis
    using fresh learned f l w storeInvariant_fresh storeInvariant_learned
    by (simp add: n)
qed

section \<open>Scoring and ranking\<close>

lemma calculateStrategyScore_score_irrelevant:
  "calculateStrategyScore e (s\<lparr>score := x\<rparr>) ctx = calculateStrategyScore e s ctx"
  by (simp add: calculateStrategyScore_def)

lemma insort_key_map:
  "insort_key f (g x) (map g ys) = map g (insort_key (\<lambda>y. f (g y)) x ys)"
  by (induction ys) auto

lemma sort_key_map: "sort_key f (map g xs) = map g (sort_key (\<lambda>y. f (g y)) xs)"
  by (induction xs) (auto simp: insort_key_map)

lemma rankStrategies_as_sort:
  "rankStrategies e strategies ctx =
     map (withScore e ctx) (sort_key (\<lambda>s. - calculateStrategyScore e s ctx) strategies)"
  by (simp add: rankStrategies_def sort_key_map withScore_def scoreValue_def)

lemma calculateContextSimilarity_iff:
  "calculateContextSimilarity e ctx =
     (if \<exists>entry \<in> set (healingHistory e).
            Option.bind (h_context entry) testType = testType ctx \<and>
            Option.bind (h_context entry) pageUrl = pageUrl ctx
      then 8/10 else 3/10)"
  by (auto simp: calculateContextSimilarity_def Let_def filter_empty_conv)

lemma ranked_sorted:
  "sorted_wrt (\<lambda>a b. calculateStrategyScore e a ctx \<ge> calculateStrategyScore e b ctx)
     (rankStrategies e strategies ctx)"
proof -
  have "sorted (map (\<lambda>s. - calculateStrategyScore e s ctx)
          (sort_key (\<lambda>s. - calculateStrategyScore e s ctx) strategies))"
    by (rule sorted_sort_key)
  then have "sorted_wrt (\<lambda>a b. calculateStrategyScore e a ctx \<ge> calculateStrategyScore e b ctx)
          (sort_key (\<lambda>s. - calculateStrategyScore e s ctx) strategies)"
    by (simp add: sorted_wrt_map)
  then show ?thesis
    by (simp add: rankStrategies_as_sort sorted_wrt_map withScore_def
                  calculateStrategyScore_score_irrelevant)
qed

lemma ranked_stable:
  "filter (\<lambda>s. calculateStrategyScore e s ctx = k) (rankStrategies e strategies ctx) =
   map (withScore e ctx) (filter (\<lambda>s. calculateStrategyScore e s ctx = k) strategies)"
proof -
  have "filter (\<lambda>s. - calculateStrategyScore e s ctx = - k)
          (sort_key (\<lambda>s. - calculateStrategyScore e s ctx) strategies)
        = filter (\<lambda>s. - calculateStrategyScore e s ctx = - k) strategies"
    by (rule sort_key_stable)
  then show ?thesis
    by (simp add: rankStrategies_as_sort filter_map comp_def withScore_def
                  calculateStrategyScore_score_irrelevant)
qed

lemma ranked_mset:
  "mset (rankStrategies e strategies ctx) = mset (map (withScore e ctx) strategies)"
  by (simp add: rankStrategies_as_sort)

text \<open>
  C3 (amended). For a candidate with a non-zero confidence, on every store of an engine, the
  score is min(100, confidence + rate * 30 + similarity * 20), with rate 0.5 for an unseen
  name and similarity 0.8 or 0.3. Only the upper bound is enforced: the score never exceeds
  100, and there is no lower clamp; for a non-negative confidence the score is non-negative
  and equals the specification's score clamped to [0, 100]. The ranked list is sorted by
  descending score, is a permutation of the scored candidates, and keeps candidates of
  equal score in generation order.
\<close>

theorem calculateStrategyScore_and_ranking:
  "(storeInvariant e \<and> confidence s = Some c \<and> c \<noteq> 0 \<longrightarrow>
      calculateStrategyScore e s ctx =
        min 100 (c + spec_historicalSuccessRate e (strategy s) * 30
                   + spec_contextSimilarity e ctx * 20) \<and>
      (0 \<le> c \<longrightarrow>
         0 \<le> calculateStrategyScore e s ctx \<and>
         calculateStrategyScore e s ctx = spec_score e c (strategy s) ctx)) \<and>
   calculateStrategyScore e s ctx \<le> 100 \<and>
   sorted_wrt (\<lambda>a b. calculateStrategyScore e a ctx \<ge> calculateStrategyScore e b ctx)
     (rankStrategies e strategies ctx) \<and>
   mset (rankStrategies e strategies ctx) = mset (map (withScore e ctx) strategies) \<and>
   filter (\<lambda>s. calculateStrategyScore e s ctx = k) (rankStrategies e strategies ctx) =
     map (withScore e ctx) (filter (\<lambda>s. calculateStrategyScore e s ctx = k) strategies)"
proof -
  have sim: "calculateContextSimilarity e ctx = spec_contextSimilarity e ctx"
    by (simp add: calculateContextSimilarity_iff spec_contextSimilarity_def)
  have sim0: "0 \<le> spec_contextSimilarity e ctx"
    by (simp add: spec_contextSimilarity_def)
  have rate: "orDefault (mapGet (successRates e) (strategy s)) (1/2) =
                spec_historicalSuccessRate e (strategy s) \<and>
              0 < spec_historicalSuccessRate e (strategy s)"
    if "storeInvariant e"
    using that positive_lookup [of "successRates e" "strategy s"]
    by (auto simp: storeInvariant_def orDefault_def spec_historicalSuccessRate_def
             split: option.splits)
  have a: "calculateStrategyScore e s ctx =
        min 100 (c + spec_historicalSuccessRate e (strategy s) * 30
                   + spec_contextSimilarity e ctx * 20)"
    if "storeInvariant e" "confidence s = Some c" "c \<noteq> 0"
    using that rate [OF that(1)]
    by (simp add: calculateStrategyScore_def Let_def sim orDefault_def)
  have a': "0 \<le> calculateStrategyScore e s ctx \<and>
            calculateStrategyScore e s ctx = spec_score e c (strategy s) ctx"
    if "storeInvariant e" "confidence s = Some c" "c \<noteq> 0" "0 \<le> c"
  proof -
    have "0 \<le> c + spec_historicalSuccessRate e (strategy s) * 30 + spec_contextSimilarity e ctx * 20"
      using that(4) rate [OF that(1)] sim0 by simp
    then show ?thesis
      unfolding a [OF that(1-3)] spec_score_def by simp
  qed
  have d: "calculateStrategyScore e s ctx \<le> 100"
    by (simp add: calculateStrategyScore_def Let_def)
  show ?thesis
    using a a' d ranked_sorted [of e ctx strategies] ranked_mset [of e strategies ctx]
      ranked_stable [of e ctx k strategies]
    by blast
qed

theorem calculateStrategyScore_and_ranking_witness:
  "storeInvariant learnedEngine \<and>
   confidence (mkCandidate ''wait_healing'' (Some 70)) = Some 70 \<and>
   mapGet (successRates learnedEngine) ''wait_healing'' = Some (3/4) \<and>
   calculateStrategyScore learnedEngine (mkCandidate ''wait_healing'' (Some 70)) exampleContext = 197/2 \<and>
   spec_score learnedEngine 70 ''wait_healing'' exampleContext = 197/2 \<and>
   calculateStrategyScore learnedEngine (mkCandidate ''locator_healing'' (Some 60)) exampleContext = 81 \<and>
   spec_score learnedEngine 60 ''locator_healing'' exampleContext = 81 \<and>
   map strategy (rankStrategies learnedEngine
       [mkCandidate ''locator_healing'' (Some 60), mkCandidate ''wait_healing'' (Some 70),
        mkCandidate ''navigation_healing'' (Some 60)] exampleContext)
     = [''wait_healing'', ''locator_healing'', ''navigation_healing'']"
proof -
  have r: "map strategy (rankStrategies learnedEngine
       [mkCandidate ''locator_healing'' (Some 60), mkCandidate ''wait_healing'' (Some 70),
        mkCandidate ''navigation_healing'' (Some 60)] exampleContext)
     = [''wait_healing'', ''locator_healing'', ''navigation_healing'']"
    by (simp add: rankStrategies_def withScore_def scoreValue_def calculateStrategyScore_def
          calculateContextSimilarity_def orDefault_def mapGet_def learnedEngine_def
          mkCandidate_def exampleContext_def Let_def)
  have sp: "spec_score learnedEngine 70 ''wait_healing'' exampleContext = 197/2 \<and>
            spec_score learnedEngine 60 ''locator_healing'' exampleContext = 81"
    by (simp add: spec_score_def spec_historicalSuccessRate_def spec_contextSimilarity_def
          mapGet_def learnedEngine_def exampleContext_def)
  have c: "confidence (mkCandidate n (Some x)) = Some x" "strategy (mkCandidate n (Some x)) = n" for n x
    by (simp_all add: mkCandidate_def)
  have m: "mapGet (successRates learnedEngine) ''wait_healing'' = Some (3/4)"
    by (simp add: mapGet_def learnedEngine_def)
  note w = calculateStrategyScore_and_ranking
        [where s = "mkCandidate ''wait_healing'' (Some 70)" and e = learnedEngine
           and ctx = exampleContext and strategies = "[]" and c = 70 and k = 0, unfolded c]
  note l = calculateStrategyScore_and_ranking
        [where s = "mkCandidate ''locator_healing'' (Some 60)" and e = learnedEngine
           and ctx = exampleContext and strategies = "[]" and c = 60 and k = 0, unfolded c]
  have sw: "calculateStrategyScore learnedEngine (mkCandidate ''wait_healing'' (Some 70)) exampleContext
              = spec_score learnedEngine 70 ''wait_healing'' exampleContext"
    using w storeInvariant_learned by simp
  have sl: "calculateStrategyScore learnedEngine (mkCandidate ''locator_healing'' (Some 60)) exampleContext
              = spec_score learnedEngine 60 ''locator_healing'' exampleContext"
    using l storeInvariant_learned by simp
  show ?thesis
    using r sp sw sl m storeInvariant_learned by (simp add: c)
qed

text \<open>
  The score is not clamped to [0, 100] from below: a confidence of -100 scores -79 where
  the clamped formula gives 0. (A confidence of 0 scores 71 where the formula gives 21: the
  default of 50 for a missing confidence also replaces a confidence of 0.)
\<close>

theorem calculateStrategyScore_counterexample:
  "calculateStrategyScore freshEngine (mkCandidate ''locator_healing'' (Some (- 100))) exampleContext
     = - 79 \<and>
   spec_score freshEngine (- 100) ''locator_healing'' exampleContext = 0 \<and>
   calculateStrategyScore freshEngine (mkCandidate ''locator_healing'' (Some 0)) exampleContext = 71 \<and>
   spec_score freshEngine 0 ''locator_healing'' exampleContext = 21"
  by (simp add: calculateStrategyScore_def calculateContextSimilarity_def orDefault_def mapGet_def
        spec_score_def spec_historicalSuccessRate_def spec_contextSimilarity_def
        freshEngine_def mkCandidate_def exampleContext_def Let_def)

section \<open>The healing loop\<close>

text \<open>The definitions unfolded when the examples are evaluated.\<close>

lemmas example_eval =
  succeeds_def executeHealingStrategy_def dispatchStrategy_def executeCustomStrategy_def
  exampleExecutors_def exampleAnalysis_def mkCandidate_def toLowerCase_def toLowerChar_def
  failureResult_def emptyResult_def

lemma applyHealingLoop_char:
  "applyHealingLoop ex now td ctx ss e =
     (case find (succeeds ex td ctx) ss of
        None \<Rightarrow> (None, e, ss)
      | Some s \<Rightarrow>
          (executeHealingStrategy ex s td ctx,
           (case executeHealingStrategy ex s td ctx of
              None \<Rightarrow> e
            | Some r \<Rightarrow> recordSuccessfulHealing now s r e),
           takeWhile (\<lambda>s. \<not> succeeds ex td ctx s) ss @ [s]))"
proof (induction ss)
  case Nil
  then show ?case by simp
next
  case (Cons s rest)
  show ?case
  proof (cases "succeeds ex td ctx s")
    case True
    then show ?thesis
      by (auto simp: succeeds_def split: option.splits)
  next
    case False
    then have step: "applyHealingLoop ex now td ctx (s # rest) e =
        (case applyHealingLoop ex now td ctx rest e of
           (res, e', invoked) \<Rightarrow> (res, e', s # invoked))"
      by (auto simp: succeeds_def split: option.splits)
    show ?thesis
      unfolding step Cons.IH using False
      by (simp split: option.splits)
  qed
qed

lemma find_Some_succeeds: "find P xs = Some x \<Longrightarrow> P x"
  by (induction xs) (auto split: if_splits)

lemma takeWhile_then_found:
  "find P xs = Some x \<Longrightarrow>
   takeWhile (\<lambda>y. \<not> P y) xs @ [x] = take (length (takeWhile (\<lambda>y. \<not> P y) xs) + 1) xs"
  by (induction xs) (auto split: if_splits)

lemma takeWhile_none_found:
  "find P xs = None \<Longrightarrow> takeWhile (\<lambda>y. \<not> P y) xs = xs"
  by (induction xs) (auto split: if_splits)

lemma applyHealing_invoked:
  "snd (snd (applyHealing ex now a td ctx e)) =
     take (length (takeWhile (\<lambda>s. \<not> succeeds ex td ctx s) (a_strategies a)) + 1) (a_strategies a)"
proof (cases "find (succeeds ex td ctx) (a_strategies a)")
  case None
  then show ?thesis
    by (simp add: applyHealing_def applyHealingLoop_char takeWhile_none_found)
next
  case (Some s)
  from find_Some_succeeds [OF Some] obtain r where
    r: "executeHealingStrategy ex s td ctx = Some r"
    by (auto simp: succeeds_def split: option.splits)
  show ?thesis
    using takeWhile_then_found [OF Some]
    by (simp add: applyHealing_def applyHealingLoop_char Some r)
qed

lemma storeInvariant_applyHealing:
  assumes "storeInvariant e"
  shows "storeInvariant (fst (snd (applyHealing ex now a td ctx e)))"
proof (cases "find (succeeds ex td ctx) (a_strategies a)")
  case None
  then show ?thesis
    using assms by (simp add: applyHealing_def applyHealingLoop_char)
next
  case (Some s)
  from find_Some_succeeds [OF Some] obtain r where
    r: "executeHealingStrategy ex s td ctx = Some r"
    by (auto simp: succeeds_def split: option.splits)
  show ?thesis
    using storeInvariant_recordSuccessfulHealing [OF assms, of now s r]
    by (simp add: applyHealing_def applyHealingLoop_char Some r)
qed

text \<open>
  C4. For every ranked strategy list, \<open>applyHealing\<close> invokes the strategies in rank order
  and invokes exactly the first N of them, where N is the index of the first succeeding
  strategy plus one, or the length of the list when none succeeds. At the first strategy
  whose result has \<open>success: true\<close> it records the learning update (the history gains one
  record of that strategy and result, the counts of the strategy's pattern go up by one and
  its success-rate entry becomes (old + 1) / 2) and returns that result; no later strategy
  is invoked.
\<close>

theorem applyHealing_stops_at_first_success:
  "snd (snd (applyHealing ex now a td ctx e)) =
     take (length (takeWhile (\<lambda>s. \<not> succeeds ex td ctx s) (a_strategies a)) + 1) (a_strategies a) \<and>
   (find (succeeds ex td ctx) (a_strategies a) = Some s \<and>
    executeHealingStrategy ex s td ctx = Some r \<longrightarrow>
      success r \<and>
      applyHealing ex now a td ctx e =
        (r, recordSuccessfulHealing now s r e,
         takeWhile (\<lambda>s. \<not> succeeds ex td ctx s) (a_strategies a) @ [s]) \<and>
      healingHistory (fst (snd (applyHealing ex now a td ctx e))) =
        healingHistory e @
          [\<lparr>h_timestamp = now, h_strategy = strategy s, h_success = True, h_result = r,
            h_context = Some (case r_context r of
                                None \<Rightarrow> \<lparr>testType = None, pageUrl = None\<rparr>
                              | Some c \<Rightarrow> c)\<rparr>] \<and>
      (\<exists>p. mapGet (patterns (fst (snd (applyHealing ex now a td ctx e)))) (strategy s) = Some p \<and>
           totalCount p = (case mapGet (patterns e) (strategy s) of
                             None \<Rightarrow> 1 | Some q \<Rightarrow> totalCount q + 1) \<and>
           successCount p = (case mapGet (patterns e) (strategy s) of
                               None \<Rightarrow> 1 | Some q \<Rightarrow> successCount q + 1) \<and>
           successRate p = of_nat (successCount p) / of_nat (totalCount p)) \<and>
      (storeInvariant e \<longrightarrow>
         mapGet (successRates (fst (snd (applyHealing ex now a td ctx e)))) (strategy s) =
           Some ((spec_historicalSuccessRate e (strategy s) + 1) / 2))) \<and>
   (find (succeeds ex td ctx) (a_strategies a) = None \<longrightarrow>
      snd (snd (applyHealing ex now a td ctx e)) = a_strategies a)"
proof (intro conjI impI)
  show "snd (snd (applyHealing ex now a td ctx e)) =
     take (length (takeWhile (\<lambda>s. \<not> succeeds ex td ctx s) (a_strategies a)) + 1) (a_strategies a)"
    by (rule applyHealing_invoked)
next
  assume h: "find (succeeds ex td ctx) (a_strategies a) = Some s \<and>
    executeHealingStrategy ex s td ctx = Some r"
  with find_Some_succeeds [of "succeeds ex td ctx" "a_strategies a" s]
  show "success r" by (simp add: succeeds_def)
  from h show res: "applyHealing ex now a td ctx e =
        (r, recordSuccessfulHealing now s r e,
         takeWhile (\<lambda>s. \<not> succeeds ex td ctx s) (a_strategies a) @ [s])"
    by (simp add: applyHealing_def applyHealingLoop_char)
  show "healingHistory (fst (snd (applyHealing ex now a td ctx e))) =
        healingHistory e @
          [\<lparr>h_timestamp = now, h_strategy = strategy s, h_success = True, h_result = r,
            h_context = Some (case r_context r of
                                None \<Rightarrow> \<lparr>testType = None, pageUrl = None\<rparr>
                              | Some c \<Rightarrow> c)\<rparr>]"
    unfolding res by (simp add: recordSuccessfulHealing_history)
  show "\<exists>p. mapGet (patterns (fst (snd (applyHealing ex now a td ctx e)))) (strategy s) = Some p \<and>
           totalCount p = (case mapGet (patterns e) (strategy s) of
                             None \<Rightarrow> 1 | Some q \<Rightarrow> totalCount q + 1) \<and>
           successCount p = (case mapGet (patterns e) (strategy s) of
                               None \<Rightarrow> 1 | Some q \<Rightarrow> successCount q + 1) \<and>
           successRate p = of_nat (successCount p) / of_nat (totalCount p)"
    unfolding res using recordSuccessfulHealing_pattern_counts [of now s r e] by simp
  show "mapGet (successRates (fst (snd (applyHealing ex now a td ctx e)))) (strategy s) =
           Some ((spec_historicalSuccessRate e (strategy s) + 1) / 2)"
    if "storeInvariant e"
    unfolding res using recordSuccessfulHealing_rate_on_store [OF that, of now s r] by simp
next
  assume "find (succeeds ex td ctx) (a_strategies a) = None"
  then show "snd (snd (applyHealing ex now a td ctx e)) = a_strategies a"
    by (simp add: applyHealing_def applyHealingLoop_char)
qed

lemma find_None_iff_all: "find P xs = None \<longleftrightarrow> (\<forall>x \<in> set xs. \<not> P x)"
  by (induction xs) auto

lemma thrown_is_failure:
  "dispatchStrategy ex s td ctx = Inl error \<Longrightarrow>
   executeHealingStrategy ex s td ctx = Some (failureResult error s) \<and> \<not> succeeds ex td ctx s"
  by (simp add: executeHealingStrategy_def succeeds_def failureResult_def)

text \<open>
  C6. When every strategy of the ranked list fails, \<open>applyHealing\<close> returns
  \<open>{success: false, error: 'All healing strategies failed', strategies: [...]}\<close>, whose
  \<open>strategies\<close> are the names of the attempted strategies, one per attempt and in attempted
  order; every strategy was attempted. An exception thrown by a strategy's handler is caught
  and becomes that strategy's failure result, so the loop goes on.
\<close>

theorem applyHealing_all_failed:
  "((\<forall>s \<in> set (a_strategies a). \<not> succeeds ex td ctx s) \<longrightarrow>
      applyHealing ex now a td ctx e = (allFailedResult (a_strategies a), e, a_strategies a)) \<and>
   success (allFailedResult (a_strategies a)) = False \<and>
   r_error (allFailedResult (a_strategies a)) = Some ''All healing strategies failed'' \<and>
   r_strategies (allFailedResult (a_strategies a)) = Some (map strategy (a_strategies a)) \<and>
   (dispatchStrategy ex s td ctx = Inl error \<longrightarrow>
      executeHealingStrategy ex s td ctx = Some (failureResult error s) \<and>
      \<not> succeeds ex td ctx s)"
proof -
  have "applyHealing ex now a td ctx e = (allFailedResult (a_strategies a), e, a_strategies a)"
    if "\<forall>s \<in> set (a_strategies a). \<not> succeeds ex td ctx s"
  proof -
    from that have "find (succeeds ex td ctx) (a_strategies a) = None"
      by (simp add: find_None_iff_all)
    then show ?thesis
      by (simp add: applyHealing_def applyHealingLoop_char)
  qed
  then show ?thesis
    using thrown_is_failure [of ex s td ctx error]
    by (simp add: allFailedResult_def emptyResult_def)
qed

text \<open>
  C10. Whenever \<open>applyHealing\<close> returns a result that is not a success, the engine's
  patterns, success rates and healing history are exactly as before the call.
\<close>

theorem applyHealing_failure_keeps_learning_state:
  "\<not> success (fst (applyHealing ex now a td ctx e)) \<longrightarrow>
     fst (snd (applyHealing ex now a td ctx e)) = e"
proof (cases "find (succeeds ex td ctx) (a_strategies a)")
  case None
  then show ?thesis
    by (simp add: applyHealing_def applyHealingLoop_char)
next
  case (Some s)
  from find_Some_succeeds [OF Some] obtain r where
    r: "executeHealingStrategy ex s td ctx = Some r" "success r"
    by (auto simp: succeeds_def split: option.splits)
  then show ?thesis
    by (simp add: applyHealing_def applyHealingLoop_char Some)
qed

theorem applyHealing_stops_at_first_success_witness:
  "find (succeeds exampleExecutors exampleTestData exampleContext)
     [mkCandidate ''locator_healing'' (Some 80), mkCandidate ''element_state_healing'' (Some 75),
      mkCandidate ''Wait_Healing'' (Some 70), mkCandidate ''navigation_healing'' (Some 60)]
     = Some (mkCandidate ''Wait_Healing'' (Some 70)) \<and>
   executeHealingStrategy exampleExecutors (mkCandidate ''Wait_Healing'' (Some 70))
       exampleTestData exampleContext
     = Some (emptyResult\<lparr>success := True, r_strategy := Some ''wait_healing''\<rparr>) \<and>
   applyHealing exampleExecutors 5
       (exampleAnalysis
          [mkCandidate ''locator_healing'' (Some 80), mkCandidate ''element_state_healing'' (Some 75),
           mkCandidate ''Wait_Healing'' (Some 70), mkCandidate ''navigation_healing'' (Some 60)])
       exampleTestData exampleContext freshEngine
     = (emptyResult\<lparr>success := True, r_strategy := Some ''wait_healing''\<rparr>,
        recordSuccessfulHealing 5 (mkCandidate ''Wait_Healing'' (Some 70))
          (emptyResult\<lparr>success := True, r_strategy := Some ''wait_healing''\<rparr>) freshEngine,
        [mkCandidate ''locator_healing'' (Some 80), mkCandidate ''element_state_healing'' (Some 75),
         mkCandidate ''Wait_Healing'' (Some 70)]) \<and>
   storeInvariant freshEngine \<and>
   healingHistory (fst (snd (applyHealing exampleExecutors 5
       (exampleAnalysis
          [mkCandidate ''locator_healing'' (Some 80), mkCandidate ''element_state_healing'' (Some 75),
           mkCandidate ''Wait_Healing'' (Some 70), mkCandidate ''navigation_healing'' (Some 60)])
       exampleTestData exampleContext freshEngine)))
     = [\<lparr>h_timestamp = 5, h_strategy = ''Wait_Healing'', h_success = True,
          h_result = emptyResult\<lparr>success := True, r_strategy := Some ''wait_healing''\<rparr>,
          h_context = Some \<lparr>testType = None, pageUrl = None\<rparr>\<rparr>] \<and>
   (\<exists>p. mapGet (patterns (fst (snd (applyHealing exampleExecutors 5
       (exampleAnalysis
          [mkCandidate ''locator_healing'' (Some 80), mkCandidate ''element_state_healing'' (Some 75),
           mkCandidate ''Wait_Healing'' (Some 70), mkCandidate ''navigation_healing'' (Some 60)])
       exampleTestData exampleContext freshEngine)))) ''Wait_Healing'' = Some p \<and>
        totalCount p = 1 \<and> successCount p = 1 \<and> successRate p = 1) \<and>
   mapGet (successRates (fst (snd (applyHealing exampleExecutors 5
       (exampleAnalysis
          [mkCandidate ''locator_healing'' (Some 80), mkCandidate ''element_state_healing'' (Some 75),
           mkCandidate ''Wait_Healing'' (Some 70), mkCandidate ''navigation_healing'' (Some 60)])
       exampleTestData exampleContext freshEngine)))) ''Wait_Healing'' = Some (3/4) \<and>
   find (succeeds exampleExecutors exampleTestData exampleContext)
     [mkCandidate ''locator_healing'' (Some 80), mkCandidate ''navigation_healing'' (Some 60)]
     = None \<and>
   snd (snd (applyHealing exampleExecutors 5
       (exampleAnalysis
          [mkCandidate ''locator_healing'' (Some 80), mkCandidate ''navigation_healing'' (Some 60)])
       exampleTestData exampleContext freshEngine))
     = [mkCandidate ''locator_healing'' (Some 80), mkCandidate ''navigation_healing'' (Some 60)]"
proof -
  have f: "find (succeeds exampleExecutors exampleTestData exampleContext)
     [mkCandidate ''locator_healing'' (Some 80), mkCandidate ''element_state_healing'' (Some 75),
      mkCandidate ''Wait_Healing'' (Some 70), mkCandidate ''navigation_healing'' (Some 60)]
     = Some (mkCandidate ''Wait_Healing'' (Some 70))"
    by (simp add: example_eval)
  have x: "executeHealingStrategy exampleExecutors (mkCandidate ''Wait_Healing'' (Some 70))
       exampleTestData exampleContext
     = Some (emptyResult\<lparr>success := True, r_strategy := Some ''wait_healing''\<rparr>)"
    by (simp add: example_eval)
  have t: "takeWhile (\<lambda>s. \<not> succeeds exampleExecutors exampleTestData exampleContext s)
     [mkCandidate ''locator_healing'' (Some 80), mkCandidate ''element_state_healing'' (Some 75),
      mkCandidate ''Wait_Healing'' (Some 70), mkCandidate ''navigation_healing'' (Some 60)]
     = [mkCandidate ''locator_healing'' (Some 80), mkCandidate ''element_state_healing'' (Some 75)]"
    by (simp add: example_eval)
  have n: "find (succeeds exampleExecutors exampleTestData exampleContext)
     [mkCandidate ''locator_healing'' (Some 80), mkCandidate ''navigation_healing'' (Some 60)]
     = None"
    by (simp add: example_eval)
  have a: "a_strategies (exampleAnalysis ss) = ss" for ss
    by (simp add: exampleAnalysis_def)
  note first =
      applyHealing_stops_at_first_success
        [where ex = exampleExecutors and td = exampleTestData and ctx = exampleContext
           and now = 5 and e = freshEngine and s = "mkCandidate ''Wait_Healing'' (Some 70)"
           and r = "emptyResult\<lparr>success := True, r_strategy := Some ''wait_healing''\<rparr>"
           and a = "exampleAnalysis
             [mkCandidate ''locator_healing'' (Some 80), mkCandidate ''element_state_healing'' (Some 75),
              mkCandidate ''Wait_Healing'' (Some 70), mkCandidate ''navigation_healing'' (Some 60)]",
         unfolded a]
  note none =
      applyHealing_stops_at_first_success
        [where ex = exampleExecutors and td = exampleTestData and ctx = exampleContext
           and now = 5 and e = freshEngine and s = "mkCandidate ''Wait_Healing'' (Some 70)"
           and r = "emptyResult\<lparr>success := True, r_strategy := Some ''wait_healing''\<rparr>"
           and a = "exampleAnalysis
             [mkCandidate ''locator_healing'' (Some 80), mkCandidate ''navigation_healing'' (Some 60)]",
         unfolded a]
  from first f x have r1: "applyHealing exampleExecutors 5
       (exampleAnalysis
          [mkCandidate ''locator_healing'' (Some 80), mkCandidate ''element_state_healing'' (Some 75),
           mkCandidate ''Wait_Healing'' (Some 70), mkCandidate ''navigation_healing'' (Some 60)])
       exampleTestData exampleContext freshEngine
     = (emptyResult\<lparr>success := True, r_strategy := Some ''wait_healing''\<rparr>,
        recordSuccessfulHealing 5 (mkCandidate ''Wait_Healing'' (Some 70))
          (emptyResult\<lparr>success := True, r_strategy := Some ''wait_healing''\<rparr>) freshEngine,
        [mkCandidate ''locator_healing'' (Some 80), mkCandidate ''element_state_healing'' (Some 75)]
        @ [mkCandidate ''Wait_Healing'' (Some 70)])"
    unfolding t by blast
  have nm: "strategy (mkCandidate ''Wait_Healing'' (Some 70)) = ''Wait_Healing''"
    by (simp add: mkCandidate_def)
  have old: "mapGet (patterns freshEngine) ''Wait_Healing'' = None \<and>
             spec_historicalSuccessRate freshEngine ''Wait_Healing'' = 1/2 \<and>
             healingHistory freshEngine = []"
    by (simp add: mapGet_def spec_historicalSuccessRate_def freshEngine_def)
  have ctx0: "r_context (emptyResult\<lparr>success := True, r_strategy := Some ''wait_healing''\<rparr>) = None"
    by (simp add: emptyResult_def)
  from first f x have st:
    "healingHistory (fst (snd (applyHealing exampleExecutors 5
       (exampleAnalysis
          [mkCandidate ''locator_healing'' (Some 80), mkCandidate ''element_state_healing'' (Some 75),
           mkCandidate ''Wait_Healing'' (Some 70), mkCandidate ''navigation_healing'' (Some 60)])
       exampleTestData exampleContext freshEngine)))
     = [\<lparr>h_timestamp = 5, h_strategy = ''Wait_Healing'', h_success = True,
          h_result = emptyResult\<lparr>success := True, r_strategy := Some ''wait_healing''\<rparr>,
          h_context = Some \<lparr>testType = None, pageUrl = None\<rparr>\<rparr>] \<and>
   (\<exists>p. mapGet (patterns (fst (snd (applyHealing exampleExecutors 5
       (exampleAnalysis
          [mkCandidate ''locator_healing'' (Some 80), mkCandidate ''element_state_healing'' (Some 75),
           mkCandidate ''Wait_Healing'' (Some 70), mkCandidate ''navigation_healing'' (Some 60)])
       exampleTestData exampleContext freshEngine)))) ''Wait_Healing'' = Some p \<and>
        totalCount p = 1 \<and> successCount p = 1 \<and> successRate p = 1) \<and>
   mapGet (successRates (fst (snd (applyHealing exampleExecutors 5
       (exampleAnalysis
          [mkCandidate ''locator_healing'' (Some 80), mkCandidate ''element_state_healing'' (Some 75),
           mkCandidate ''Wait_Healing'' (Some 70), mkCandidate ''navigation_healing'' (Some 60)])
       exampleTestData exampleContext freshEngine)))) ''Wait_Healing'' = Some (3/4)"
    using storeInvariant_fresh unfolding nm by (auto simp: old ctx0)
  from none n have r2: "snd (snd (applyHealing exampleExecutors 5
       (exampleAnalysis
          [mkCandidate ''locator_healing'' (Some 80), mkCandidate ''navigation_healing'' (Some 60)])
       exampleTestData exampleContext freshEngine))
     = [mkCandidate ''locator_healing'' (Some 80), mkCandidate ''navigation_healing'' (Some 60)]"
    by blast
  show ?thesis
    using f x n r1 r2 st storeInvariant_fresh by simp
qed

theorem applyHealing_all_failed_witness:
  "\<not> succeeds exampleExecutors exampleTestData exampleContext (mkCandidate ''locator_healing'' (Some 80)) \<and>
   \<not> succeeds exampleExecutors exampleTestData exampleContext (mkCandidate ''element_state_healing'' (Some 75)) \<and>
   \<not> succeeds exampleExecutors exampleTestData exampleContext (mkCandidate ''navigation_healing'' (Some 60)) \<and>
   \<not> succeeds exampleExecutors exampleTestData exampleContext (mkCandidate ''restart_browser'' None) \<and>
   dispatchStrategy exampleExecutors (mkCandidate ''element_state_healing'' (Some 75))
     exampleTestData exampleContext = Inl (Error ''page crashed'') \<and>
   executeHealingStrategy exampleExecutors (mkCandidate ''element_state_healing'' (Some 75))
     exampleTestData exampleContext
     = Some (failureResult (Error ''page crashed'') (mkCandidate ''element_state_healing'' (Some 75))) \<and>
   applyHealing exampleExecutors 5
       (exampleAnalysis
          [mkCandidate ''locator_healing'' (Some 80), mkCandidate ''element_state_healing'' (Some 75),
           mkCandidate ''navigation_healing'' (Some 60), mkCandidate ''restart_browser'' None])
       exampleTestData exampleContext learnedEngine
     = (emptyResult\<lparr>success := False, r_error := Some ''All healing strategies failed'',
          r_strategies := Some [''locator_healing'', ''element_state_healing'',
                                ''navigation_healing'', ''restart_browser'']\<rparr>,
        learnedEngine,
        [mkCandidate ''locator_healing'' (Some 80), mkCandidate ''element_state_healing'' (Some 75),
         mkCandidate ''navigation_healing'' (Some 60), mkCandidate ''restart_browser'' None])"
proof -
  have s: "\<not> succeeds exampleExecutors exampleTestData exampleContext (mkCandidate ''locator_healing'' (Some 80)) \<and>
   \<not> succeeds exampleExecutors exampleTestData exampleContext (mkCandidate ''element_state_healing'' (Some 75)) \<and>
   \<not> succeeds exampleExecutors exampleTestData exampleContext (mkCandidate ''navigation_healing'' (Some 60)) \<and>
   \<not> succeeds exampleExecutors exampleTestData exampleContext (mkCandidate ''restart_browser'' None)"
    by (simp add: example_eval)
  have d: "dispatchStrategy exampleExecutors (mkCandidate ''element_state_healing'' (Some 75))
     exampleTestData exampleContext = Inl (Error ''page crashed'')"
    by (simp add: example_eval)
  have a: "a_strategies (exampleAnalysis ss) = ss" for ss
    by (simp add: exampleAnalysis_def)
  have n: "strategy (mkCandidate n c) = n" for n c
    by (simp add: mkCandidate_def)
  show ?thesis
    using s d
      applyHealing_all_failed
        [where ex = exampleExecutors and td = exampleTestData and ctx = exampleContext
           and now = 5 and e = learnedEngine
           and s = "mkCandidate ''element_state_healing'' (Some 75)"
           and error = "Error ''page crashed''"
           and a = "exampleAnalysis
             [mkCandidate ''locator_healing'' (Some 80), mkCandidate ''element_state_healing'' (Some 75),
              mkCandidate ''navigation_healing'' (Some 60), mkCandidate ''restart_browser'' None]"]
    by (simp add: a n allFailedResult_def)
qed

theorem applyHealing_failure_keeps_learning_state_witness:
  "\<not> success (fst (applyHealing exampleExecutors 5
       (exampleAnalysis
          [mkCandidate ''locator_healing'' (Some 80), mkCandidate ''element_state_healing'' (Some 75)])
       exampleTestData exampleContext learnedEngine)) \<and>
   fst (snd (applyHealing exampleExecutors 5
       (exampleAnalysis
          [mkCandidate ''locator_healing'' (Some 80), mkCandidate ''element_state_healing'' (Some 75)])
       exampleTestData exampleContext learnedEngine)) = learnedEngine"
proof -
  have f: "\<not> success (fst (applyHealing exampleExecutors 5
       (exampleAnalysis
          [mkCandidate ''locator_healing'' (Some 80), mkCandidate ''element_state_healing'' (Some 75)])
       exampleTestData exampleContext learnedEngine))"
    by (simp add: applyHealing_def allFailedResult_def example_eval)
  show ?thesis
    using f
      applyHealing_failure_keeps_learning_state
        [where ex = exampleExecutors and td = exampleTestData and ctx = exampleContext
           and now = 5 and e = learnedEngine
           and a = "exampleAnalysis
             [mkCandidate ''locator_healing'' (Some 80), mkCandidate ''element_state_healing'' (Some 75)]"]
    by blast
qed

section \<open>The UI fallbacks\<close>







section \<open>Strategy generation and analysis\<close>

lemma ai_rankStrategies_names:
  "mset (map (\<lambda>s. (strategy s, confidence s)) (ai_rankStrategies ai ss ctx)) =
   mset (map (\<lambda>s. (strategy s, confidence s)) ss)"
proof -
  have "mset (map (\<lambda>s. (strategy s, confidence s)) (ai_rankStrategies ai ss ctx)) =
        image_mset (\<lambda>s. (strategy s, confidence s))
          (mset (map (\<lambda>s. s\<lparr>score := Some (ai_calculateStrategyScore ai s ctx)\<rparr>) ss))"
    by (simp add: ai_rankStrategies_def)
  also have "\<dots> = mset (map (\<lambda>s. (strategy s, confidence s)) ss)"
    by (simp add: image_mset.compositionality comp_def)
  finally show ?thesis .
qed

lemma parseHealingStrategies_unparseable:
  "parse response = JsonSyntaxError \<Longrightarrow>
   (if list_ex (\<lambda>rx. regexTest rx response) strategyPatterns
    then parseHealingStrategies parse response \<noteq> [] \<and>
         list_all (\<lambda>s. confidence s = Some 70) (parseHealingStrategies parse response)
    else parseHealingStrategies parse response = genericCandidates)"
  by (simp add: parseHealingStrategies_def strategyPatterns_def Let_def)

text \<open>
  C2 (amended). Strategy generation never propagates a failure of the AI collaborator, but
  it treats the two failures differently. When the collaborator throws, generation returns
  the empty list and the analysis holds the ranked pattern-sourced candidates only. When the
  collaborator returns text that does not parse, generation returns the keyword-matched
  candidates (each with confidence 70) or, when no keyword pattern matches, the generic
  candidates \<open>locator_healing\<close> and \<open>wait_healing\<close>, each with confidence 60. In every case
  \<open>analyzeError\<close> returns a result with its error type, context, strategies and timestamp.
\<close>

theorem generateHealingStrategies_degrades:
  "(callAI co = Inl err \<longrightarrow>
      generateHealingStrategies ai (parseJSON co) (callAI co) ctx = [] \<and>
      a_strategies (analyzeError co ai now e error ctx) =
        rankStrategies e
          (getPatternBasedStrategies (hostnameOf co) e (classifyError error)
             (extractContextData ctx)) ctx) \<and>
   (callAI co = Inr response \<and> parseJSON co response = JsonSyntaxError \<longrightarrow>
      (if list_ex (\<lambda>rx. regexTest rx response) strategyPatterns
       then parseHealingStrategies (parseJSON co) response \<noteq> [] \<and>
            list_all (\<lambda>s. confidence s = Some 70) (parseHealingStrategies (parseJSON co) response)
       else parseHealingStrategies (parseJSON co) response = genericCandidates) \<and>
      generateHealingStrategies ai (parseJSON co) (callAI co) ctx =
        ai_rankStrategies ai (parseHealingStrategies (parseJSON co) response) ctx) \<and>
   map (\<lambda>s. (strategy s, confidence s)) genericCandidates =
     [(''locator_healing'', Some 60), (''wait_healing'', Some 60)] \<and>
   mset (map (\<lambda>s. (strategy s, confidence s)) (ai_rankStrategies ai genericCandidates ctx)) =
     {#(''locator_healing'', Some 60), (''wait_healing'', Some 60)#} \<and>
   errorType (analyzeError co ai now e error ctx) = classifyError error \<and>
   a_context (analyzeError co ai now e error ctx) = extractContextData ctx \<and>
   a_timestamp (analyzeError co ai now e error ctx) = now"
proof -
  have g: "map (\<lambda>s. (strategy s, confidence s)) genericCandidates =
     [(''locator_healing'', Some 60), (''wait_healing'', Some 60)]"
    by (simp add: genericCandidates_def)
  have m: "mset (map (\<lambda>s. (strategy s, confidence s)) (ai_rankStrategies ai genericCandidates ctx)) =
     {#(''locator_healing'', Some 60), (''wait_healing'', Some 60)#}"
    unfolding ai_rankStrategies_names g by simp
  have t: "generateHealingStrategies ai (parseJSON co) (callAI co) ctx = [] \<and>
      a_strategies (analyzeError co ai now e error ctx) =
        rankStrategies e
          (getPatternBasedStrategies (hostnameOf co) e (classifyError error)
             (extractContextData ctx)) ctx"
    if "callAI co = Inl err"
    using that by (simp add: generateHealingStrategies_def analyzeError_def Let_def)
  have u: "generateHealingStrategies ai (parseJSON co) (callAI co) ctx =
        ai_rankStrategies ai (parseHealingStrategies (parseJSON co) response) ctx"
    if "callAI co = Inr response"
    using that by (simp add: generateHealingStrategies_def)
  have a: "errorType (analyzeError co ai now e error ctx) = classifyError error \<and>
   a_context (analyzeError co ai now e error ctx) = extractContextData ctx \<and>
   a_timestamp (analyzeError co ai now e error ctx) = now"
    by (simp add: analyzeError_def Let_def)
  show ?thesis
    using g m t u a parseHealingStrategies_unparseable [of "parseJSON co" response]
    by blast
qed

text \<open>
  A throwing collaborator and an unparseable answer are not treated alike: the first gives
  no candidate at all, the second the two generic candidates.
\<close>

theorem generateHealingStrategies_throw_counterexample:
  "generateHealingStrategies noLearning unparseable
     (Inl (Error ''OpenAI client not initialized. Check your API key.'')) exampleContext = [] \<and>
   map strategy
     (generateHealingStrategies noLearning unparseable
        (Inr ''Sorry, I cannot help with that.'') exampleContext)
   = [''locator_healing'', ''wait_healing''] \<and>
   map confidence
     (generateHealingStrategies noLearning unparseable
        (Inr ''Sorry, I cannot help with that.'') exampleContext)
   = [Some 60, Some 60]"
  by (simp add: generateHealingStrategies_def parseHealingStrategies_def unparseable_def
        strategyPatterns_def regexTest_def toLowerCase_def toLowerChar_def genericCandidates_def
        ai_rankStrategies_def ai_calculateStrategyScore_def getHistoricalSuccessRate_def
        ai_calculateContextSimilarity_def noLearning_def orDefault_def scoreValue_def
        exampleContext_def isLineTerminator_def Let_def)

theorem generateHealingStrategies_degrades_witness:
  "callAI (exampleCollaborators (Inl (Error ''No content received from OpenAI'')))
     = Inl (Error ''No content received from OpenAI'') \<and>
   generateHealingStrategies noLearning unparseable
     (Inl (Error ''No content received from OpenAI'')) exampleContext = [] \<and>
   a_strategies (analyzeError (exampleCollaborators (Inl (Error ''No content received from OpenAI'')))
       noLearning 9 freshEngine (Error ''element not found'') exampleContext) = [] \<and>
   errorType (analyzeError (exampleCollaborators (Inl (Error ''No content received from OpenAI'')))
       noLearning 9 freshEngine (Error ''element not found'') exampleContext) = locator_failure \<and>
   \<not> list_ex (\<lambda>rx. regexTest rx ''Sorry, I cannot help.'') strategyPatterns \<and>
   parseHealingStrategies unparseable ''Sorry, I cannot help.'' = genericCandidates \<and>
   list_ex (\<lambda>rx. regexTest rx ''Try a Wait strategy'') strategyPatterns \<and>
   list_all (\<lambda>s. confidence s = Some 70) (parseHealingStrategies unparseable ''Try a Wait strategy'') \<and>
   parseHealingStrategies unparseable ''Try a Wait strategy'' \<noteq> []"
proof -
  have p: "parseJSON (exampleCollaborators x) = unparseable" "callAI (exampleCollaborators x) = x"
    "hostnameOf (exampleCollaborators x) = (\<lambda>u. Some ''example.com'')" for x
    by (simp_all add: exampleCollaborators_def)
  have u: "unparseable t = JsonSyntaxError" for t
    by (simp add: unparseable_def)
  have n: "\<not> list_ex (\<lambda>rx. regexTest rx ''Sorry, I cannot help.'') strategyPatterns"
    by (simp add: strategyPatterns_def regexTest_def toLowerCase_def toLowerChar_def isLineTerminator_def)
  have y: "list_ex (\<lambda>rx. regexTest rx ''Try a Wait strategy'') strategyPatterns"
    by (simp add: strategyPatterns_def regexTest_def toLowerCase_def toLowerChar_def isLineTerminator_def)
  have k: "getPatternBasedStrategies (\<lambda>u. Some ''example.com'') freshEngine
      locator_failure (extractContextData exampleContext) = []"
    by (simp add: getPatternBasedStrategies_def findMatchingPatterns_def freshEngine_def mapGet_def)
  have c: "classifyError (Error ''element not found'') = locator_failure"
    by (simp add: classifyError_def toLowerCase_def toLowerChar_def)
  note thrown = generateHealingStrategies_degrades
      [where co = "exampleCollaborators (Inl (Error ''No content received from OpenAI''))"
         and err = "Error ''No content received from OpenAI''" and ai = noLearning
         and ctx = exampleContext and now = 9 and e = freshEngine
         and error = "Error ''element not found''" and response = "''''", unfolded p c k]
  note generic = generateHealingStrategies_degrades
      [where co = "exampleCollaborators (Inr ''Sorry, I cannot help.'')"
         and err = "Error ''No content received from OpenAI''" and ai = noLearning
         and ctx = exampleContext and now = 9 and e = freshEngine
         and error = "Error ''element not found''" and response = "''Sorry, I cannot help.''",
         unfolded p]
  note extracted = generateHealingStrategies_degrades
      [where co = "exampleCollaborators (Inr ''Try a Wait strategy'')"
         and err = "Error ''No content received from OpenAI''" and ai = noLearning
         and ctx = exampleContext and now = 9 and e = freshEngine
         and error = "Error ''element not found''" and response = "''Try a Wait strategy''",
         unfolded p]
  have r: "rankStrategies freshEngine [] exampleContext = []"
    by (simp add: rankStrategies_def)
  show ?thesis
    using thrown generic extracted n y u r by (simp add: p)
qed

section \<open>The execution wrapper\<close>

lemma attemptHealingLoop_history:
  "length (fw_healingHistory (snd (attemptHealingLoop w error td hctx n k atts fw))) =
   length (fw_healingHistory fw) + 1"
  by (induction n arbitrary: k atts fw) (auto simp: Let_def split: prod.splits)

lemma executeTest_healing_enabled_any_error:
  assumes "testFunction td = Inl error" and "enableHealing (fw_options fw)"
  shows "length (fw_healingHistory (snd (executeTest w testFunction td fw))) =
         length (fw_healingHistory fw) + 1"
proof -
  let ?fw1 = "fw\<lparr>fw_metrics := (fw_metrics fw)\<lparr>totalTests := totalTests (fw_metrics fw) + 1\<rparr>\<rparr>"
  let ?thrown = "if isHealableError error then HealableError error else error"
  have x: "executeWithHealing testFunction td = Inl ?thrown"
    using assms(1) by (simp add: executeWithHealing_def)
  obtain hr fw2 where a: "attemptHealing w ?thrown td ?fw1 = (hr, fw2)"
    by (cases "attemptHealing w ?thrown td ?fw1")
  have "length (fw_healingHistory fw2) = length (fw_healingHistory ?fw1) + 1"
    using attemptHealingLoop_history
      [of w ?thrown td "testContext ?fw1" "maxHealingAttempts (fw_options ?fw1)" 1 "[]" ?fw1] a
    by (simp add: attemptHealing_def)
  then show ?thesis
    using assms(2) a x
    by (cases hr) (simp_all add: executeTest_def Let_def updateMetrics_def)
qed

lemma executeTest_healing_disabled:
  assumes "testFunction td = Inl error" and "\<not> enableHealing (fw_options fw)"
  shows "fst (executeTest w testFunction td fw) =
           Inl (if isHealableError error then HealableError error else error) \<and>
         healingEngine (snd (executeTest w testFunction td fw)) = healingEngine fw \<and>
         fw_healingHistory (snd (executeTest w testFunction td fw)) = fw_healingHistory fw \<and>
         healedTests (fw_metrics (snd (executeTest w testFunction td fw))) =
           healedTests (fw_metrics fw)"
  using assms by (simp add: executeTest_def executeWithHealing_def Let_def updateMetrics_def)

text \<open>
  C1. The claim is that an error outside the allow-list is re-thrown by \<open>executeTest\<close> without
  any call of the healing orchestrator and with \<open>healedTests\<close> unchanged. The code does
  otherwise. The error "unrelated syntax problem" is not healable, yet with healing enabled
  \<open>executeTest\<close> runs \<open>attemptHealing\<close> all the same: when the AI collaborator answers with text
  that is no JSON, the generic \<open>locator_healing\<close> candidate succeeds on its basic fallback, the
  test is reported healed and \<open>healedTests\<close> becomes 1; when the collaborator throws, the
  original error is re-thrown, but only after three analyze-and-apply cycles.
\<close>

theorem executeTest_unhealable_error_is_healed:
  "isHealableError (Error ''unrelated syntax problem'') = False \<and>
   enableHealing (fw_options newFramework) = True \<and>
   fst (executeTest chattyWorld unhealableTest exampleTestData newFramework) =
     Inr (emptyResult\<lparr>success := True, r_locator := Some (''[id='' @ dquote @ ''test'' @ dquote @ '']''),
                      r_strategy := Some ''alternative_selector'', r_confidence := Some 60\<rparr>) \<and>
   healedTests (fw_metrics (snd (executeTest chattyWorld unhealableTest exampleTestData newFramework))) = 1 \<and>
   map h_strategy (healingHistory (healingEngine
      (snd (executeTest chattyWorld unhealableTest exampleTestData newFramework)))) = [''locator_healing''] \<and>
   fst (executeTest offlineWorld unhealableTest exampleTestData newFramework) =
     Inl (Error ''unrelated syntax problem'') \<and>
   healedTests (fw_metrics (snd (executeTest offlineWorld unhealableTest exampleTestData newFramework))) = 0 \<and>
   map (map_option (map at_attempt) \<circ> fh_attempts)
     (fw_healingHistory (snd (executeTest offlineWorld unhealableTest exampleTestData newFramework)))
     = [Some [1, 2, 3]]"
  by code_simp

end
